theory Spec2Isabelle
  imports Main "HOL-Library.Sublist"
begin

section \<open>JavaScript values\<close>

text \<open>
  The documentation query server is the JavaScript program held in the template string
  \<^verbatim>\<open>MCP_SERVER_CODE\<close> of the deploy command. It works on values produced by
  \<^verbatim>\<open>JSON.parse\<close> and on object literals built from them, so the model has one type
  of JavaScript values. \<open>Undefined\<close> is a value: reading a missing property gives it, and
  an object literal can hold it (\<^verbatim>\<open>{ id: undefined }\<close>).

  Modelling conventions:
  \<^item> numbers are the integers, printed in decimal; none of the modelled code performs arithmetic
    on a number taken from its input;
  \<^item> a string is a list of 8-bit characters; only the ASCII letters have a lower case;
  \<^item> an object is the list of its own properties in property order, with distinct keys;
  \<^item> arrays and objects that come from two different places (a request and the corpus) are
    different references, so \<^verbatim>\<open>===\<close> between them is false.
\<close>

datatype jsval =
    Undefined
  | Null
  | Bool bool
  | Num int
  | Str string
  | Arr "jsval list"
  | Obj "(string \<times> jsval) list"

datatype js_error = TypeError string | SyntaxError string

type_synonym 'a thrown = "js_error + 'a"

definition bindE :: "'a thrown \<Rightarrow> ('a \<Rightarrow> 'b thrown) \<Rightarrow> 'b thrown" where
  "bindE m f = (case m of Inl e \<Rightarrow> Inl e | Inr x \<Rightarrow> f x)"

fun sequenceE :: "'a thrown list \<Rightarrow> 'a list thrown" where
  "sequenceE [] = Inr []"
| "sequenceE (m # ms) = bindE m (\<lambda>x. bindE (sequenceE ms) (\<lambda>xs. Inr (x # xs)))"

text \<open>\<^verbatim>\<open>xs.filter(p)\<close> where the callback may throw: elements are tested in order and the
  first exception leaves the call.\<close>

fun filterE :: "('a \<Rightarrow> bool thrown) \<Rightarrow> 'a list \<Rightarrow> 'a list thrown" where
  "filterE p [] = Inr []"
| "filterE p (x # xs) =
     bindE (p x) (\<lambda>b. bindE (filterE p xs) (\<lambda>ys. Inr (if b then x # ys else ys)))"

text \<open>\<^verbatim>\<open>xs.some(p)\<close>: stops at the first element for which the callback is true; a callback
  that throws before that leaves the call.\<close>

fun someE :: "('a \<Rightarrow> bool thrown) \<Rightarrow> 'a list \<Rightarrow> bool thrown" where
  "someE p [] = Inr False"
| "someE p (x # xs) = bindE (p x) (\<lambda>b. if b then Inr True else someE p xs)"

text \<open>\<^verbatim>\<open>xs.find(p)\<close>: the first element for which the callback is true, else undefined.\<close>

fun findE :: "(jsval \<Rightarrow> bool thrown) \<Rightarrow> jsval list \<Rightarrow> jsval thrown" where
  "findE p [] = Inr Undefined"
| "findE p (x # xs) = bindE (p x) (\<lambda>b. if b then Inr x else findE p xs)"

text \<open>Truthiness, as used by \<^verbatim>\<open>if (v)\<close>, \<^verbatim>\<open>!v\<close>, \<^verbatim>\<open>a && b\<close> and \<^verbatim>\<open>a || b\<close>.\<close>

fun truthy :: "jsval \<Rightarrow> bool" where
  "truthy Undefined = False"
| "truthy Null = False"
| "truthy (Bool b) = b"
| "truthy (Num n) = (n \<noteq> 0)"
| "truthy (Str s) = (s \<noteq> [])"
| "truthy (Arr xs) = True"
| "truthy (Obj kvs) = True"

definition js_or :: "jsval \<Rightarrow> jsval \<Rightarrow> jsval" where
  "js_or a b = (if truthy a then a else b)"

text \<open>\<^verbatim>\<open>a === b\<close> for two values of which at most one is a reference into the corpus.\<close>

fun strict_eq :: "jsval \<Rightarrow> jsval \<Rightarrow> bool" where
  "strict_eq (Arr xs) b = False"
| "strict_eq (Obj kvs) b = False"
| "strict_eq a b = (a = b)"

text \<open>
  \<^verbatim>\<open>v.k\<close> for the property names the server reads (\<^verbatim>\<open>method\<close>, \<^verbatim>\<open>id\<close>, \<^verbatim>\<open>params\<close>,
  \<^verbatim>\<open>name\<close>, \<^verbatim>\<open>arguments\<close>, \<^verbatim>\<open>source\<close>, \<^verbatim>\<open>functions\<close>, ...): none of them is an array
  index, \<^verbatim>\<open>length\<close> or a property of a built-in prototype, so only an object can have one.
  Reading a property of \<^verbatim>\<open>null\<close> or \<^verbatim>\<open>undefined\<close> throws.
\<close>

definition lookup :: "(string \<times> jsval) list \<Rightarrow> string \<Rightarrow> jsval" where
  "lookup kvs k = (case map_of kvs k of None \<Rightarrow> Undefined | Some v \<Rightarrow> v)"

fun get_prop :: "jsval \<Rightarrow> string \<Rightarrow> jsval thrown" where
  "get_prop Undefined k = Inl (TypeError (''Cannot read properties of undefined (reading '' @ k @ '')''))"
| "get_prop Null k = Inl (TypeError (''Cannot read properties of null (reading '' @ k @ '')''))"
| "get_prop (Obj kvs) k = Inr (lookup kvs k)"
| "get_prop v k = Inr Undefined"

text \<open>Setting a property in an object literal: an existing key keeps its place and takes the
  new value, a new key goes to the end.\<close>

fun set_prop :: "string \<Rightarrow> jsval \<Rightarrow> (string \<times> jsval) list \<Rightarrow> (string \<times> jsval) list" where
  "set_prop k v [] = [(k, v)]"
| "set_prop k v (p # ps) = (if fst p = k then (k, v) # ps else p # set_prop k v ps)"

subsection \<open>Numbers and strings\<close>

definition digit_char :: "nat \<Rightarrow> char" where
  "digit_char d = char_of (48 + d)"

function nat_to_string :: "nat \<Rightarrow> string" where
  "nat_to_string n =
     (if n < 10 then [digit_char n] else nat_to_string (n div 10) @ [digit_char (n mod 10)])"
  by pat_completeness auto
termination
  by (relation "measure id") auto

declare nat_to_string.simps [simp del]

definition int_to_string :: "int \<Rightarrow> string" where
  "int_to_string i = (if i < 0 then ''-'' @ nat_to_string (nat (- i)) else nat_to_string (nat i))"

fun join :: "string \<Rightarrow> string list \<Rightarrow> string" where
  "join sep [] = []"
| "join sep [x] = x"
| "join sep (x # y # ys) = x @ sep @ join sep (y # ys)"

fun enumerate_from :: "nat \<Rightarrow> 'a list \<Rightarrow> (nat \<times> 'a) list" where
  "enumerate_from n [] = []"
| "enumerate_from n (x # xs) = (n, x) # enumerate_from (Suc n) xs"

text \<open>The own enumerable properties copied by the spread \<^verbatim>\<open>{...v}\<close>: those of an object, the
  indexed elements of an array, the indexed characters of a string, none for the rest.\<close>

fun spread :: "jsval \<Rightarrow> (string \<times> jsval) list" where
  "spread (Obj kvs) = kvs"
| "spread (Arr xs) = map (\<lambda>(i, x). (nat_to_string i, x)) (enumerate_from 0 xs)"
| "spread (Str s) = map (\<lambda>(i, c). (nat_to_string i, Str [c])) (enumerate_from 0 s)"
| "spread v = []"

text \<open>The values visited by \<^verbatim>\<open>for (const x of v)\<close>: the elements of an array, the characters
  of a string; any other value is not iterable.\<close>

fun iterate :: "jsval \<Rightarrow> jsval list thrown" where
  "iterate (Arr xs) = Inr xs"
| "iterate (Str s) = Inr (map (\<lambda>c. Str [c]) s)"
| "iterate v = Inl (TypeError ''value is not iterable'')"

text \<open>String conversion, as done by a template literal \<^verbatim>\<open>`${v}`\<close>. An object that has an
  own \<^verbatim>\<open>toString\<close> property (a JSON value, hence not callable) cannot be converted.\<close>

fun ToString :: "jsval \<Rightarrow> string thrown" where
  "ToString Undefined = Inr ''undefined''"
| "ToString Null = Inr ''null''"
| "ToString (Bool b) = Inr (if b then ''true'' else ''false'')"
| "ToString (Num n) = Inr (int_to_string n)"
| "ToString (Str s) = Inr s"
| "ToString (Arr xs) =
     bindE (sequenceE (map (\<lambda>x. if x = Undefined \<or> x = Null then Inr [] else ToString x) xs))
       (\<lambda>ts. Inr (join '','' ts))"
| "ToString (Obj kvs) =
     (if map_of kvs ''toString'' = None then Inr ''[object Object]''
      else Inl (TypeError ''Cannot convert object to primitive value''))"

definition lower_char :: "char \<Rightarrow> char" where
  "lower_char c = (let n = (of_char c :: nat) in if 65 \<le> n \<and> n \<le> 90 then char_of (n + 32) else c)"

definition toLowerCase :: "string \<Rightarrow> string" where
  "toLowerCase s = map lower_char s"

text \<open>\<^verbatim>\<open>s.endsWith(t)\<close> on strings.\<close>

definition endsWith :: "string \<Rightarrow> string \<Rightarrow> bool" where
  "endsWith s t = prefix (rev t) (rev s)"

text \<open>\<^verbatim>\<open>s.includes(t)\<close> on strings: \<open>t\<close> occurs in \<open>s\<close> as a contiguous piece.\<close>

fun str_includes :: "string \<Rightarrow> string \<Rightarrow> bool" where
  "str_includes [] t = (t = [])"
| "str_includes (c # s) t = (prefix t (c # s) \<or> str_includes s t)"

subsection \<open>JSON.stringify\<close>

definition hex_char :: "nat \<Rightarrow> char" where
  "hex_char d = (if d < 10 then char_of (48 + d) else char_of (87 + d))"

definition quote_char :: "char \<Rightarrow> string" where
  "quote_char c =
     (let n = (of_char c :: nat) in
      if n = 8 then [CHR 0x5C, CHR ''b'']
      else if n = 9 then [CHR 0x5C, CHR ''t'']
      else if n = 10 then [CHR 0x5C, CHR ''n'']
      else if n = 12 then [CHR 0x5C, CHR ''f'']
      else if n = 13 then [CHR 0x5C, CHR ''r'']
      else if n = 34 then [CHR 0x5C, CHR 0x22]
      else if n = 92 then [CHR 0x5C, CHR 0x5C]
      else if n < 32 then [CHR 0x5C, CHR ''u'', CHR ''0'', CHR ''0'', hex_char (n div 16), hex_char (n mod 16)]
      else [c])"

definition quote :: "string \<Rightarrow> string" where
  "quote s = [CHR 0x22] @ concat (map quote_char s) @ [CHR 0x22]"

definition json_member :: "string \<Rightarrow> string \<Rightarrow> string \<Rightarrow> string" where
  "json_member gap k t = quote k @ '':'' @ (if gap = [] then [] else '' '') @ t"

definition wrap :: "string \<Rightarrow> string \<Rightarrow> string \<Rightarrow> string \<Rightarrow> string list \<Rightarrow> string" where
  "wrap l r gap ind parts =
     (if parts = [] then l @ r
      else if gap = [] then l @ join '','' parts @ r
      else l @ [CHR 0x0A] @ ind @ gap @ join ('','' @ [CHR 0x0A] @ ind @ gap) parts
             @ [CHR 0x0A] @ ind @ r)"

text \<open>The serialisation of a value at indentation \<open>ind\<close> with indentation unit \<open>gap\<close>;
  \<open>None\<close> is the \<^verbatim>\<open>undefined\<close> that makes a property disappear and an array element
  \<^verbatim>\<open>null\<close>.\<close>

fun serialize :: "string \<Rightarrow> string \<Rightarrow> jsval \<Rightarrow> string option" where
  "serialize gap ind Undefined = None"
| "serialize gap ind Null = Some ''null''"
| "serialize gap ind (Bool b) = Some (if b then ''true'' else ''false'')"
| "serialize gap ind (Num n) = Some (int_to_string n)"
| "serialize gap ind (Str s) = Some (quote s)"
| "serialize gap ind (Arr xs) =
     Some (wrap ''['' '']'' gap ind
       (map (\<lambda>x. case serialize gap (ind @ gap) x of None \<Rightarrow> ''null'' | Some t \<Rightarrow> t) xs))"
| "serialize gap ind (Obj kvs) =
     Some (wrap ''{'' ''}'' gap ind
       (concat (map (\<lambda>(k, v). case serialize gap (ind @ gap) v of None \<Rightarrow> []
                                 | Some t \<Rightarrow> [json_member gap k t]) kvs)))"

text \<open>\<^verbatim>\<open>JSON.stringify(v, null, 2)\<close> and \<^verbatim>\<open>JSON.stringify(v)\<close>.\<close>

definition of_text :: "string option \<Rightarrow> jsval" where
  "of_text t = (case t of None \<Rightarrow> Undefined | Some s \<Rightarrow> Str s)"

definition stringify2 :: "jsval \<Rightarrow> jsval" where
  "stringify2 v = of_text (serialize ''  '' [] v)"

definition stringify :: "jsval \<Rightarrow> jsval" where
  "stringify v = of_text (serialize [] [] v)"

section \<open>Source registry and aggregator\<close>

text \<open>
  A registry entry, as declared by \<^verbatim>\<open>interface DocSource\<close>. \<open>embeddedData\<close> is the
  field \<^verbatim>\<open>_embeddedData\<close> (\<open>Undefined\<close> when the entry has none), \<open>extract_flag\<close> the field \<^verbatim>\<open>extract\<close>. The registry is the
  parsed value of \<^verbatim>\<open>env.DOC_SOURCES\<close>, the empty list when the variable is not set.
\<close>

record DocSource =
  name :: string
  url :: "string option"
  raw :: "string option"
  github :: "string option"
  extract_flag :: "bool option"
  embeddedData :: jsval

definition opt_str :: "string option \<Rightarrow> jsval" where
  "opt_str x = (case x of None \<Rightarrow> Undefined | Some s \<Rightarrow> Str s)"

text \<open>
  The network during one aggregation run: what \<^verbatim>\<open>await fetch(u)\<close> does for a URL. The
  fetch is rejected (with a message), or resolves to a response with a status whose body either
  is rejected by \<^verbatim>\<open>response.json()\<close> (with a message) or parses to a value.
\<close>

datatype payload = NotJson string | Json jsval

datatype fetch_outcome = NetworkError string | Response nat payload

type_synonym network = "string \<Rightarrow> fetch_outcome"

definition ok :: "nat \<Rightarrow> bool" where
  "ok st = (200 \<le> st \<and> st \<le> 299)"

text \<open>What is observable of a run besides its result: the lines written with
  \<^verbatim>\<open>console.error\<close>, and the order in which fetches are issued and awaited.\<close>

datatype net_event = Issued string | Settled string

record agg =
  allData :: "jsval list"
  console :: "string list"
  net :: "net_event list"

fun isArray :: "jsval \<Rightarrow> bool" where
  "isArray (Arr xs) = True"
| "isArray v = False"

fun elements :: "jsval \<Rightarrow> jsval list" where
  "elements (Arr xs) = xs"
| "elements v = []"

text \<open>The object literal \<^verbatim>\<open>{ ...cls, _source: n, _sourceUrl: u }\<close>.\<close>

definition stamp :: "string \<Rightarrow> jsval \<Rightarrow> jsval \<Rightarrow> jsval" where
  "stamp n u cls = Obj (set_prop ''_sourceUrl'' u (set_prop ''_source'' (Str n) (spread cls)))"

text \<open>The loop \<^verbatim>\<open>for (const cls of xs) allData.push({...})\<close>.\<close>

fun push_all :: "string \<Rightarrow> jsval \<Rightarrow> jsval list \<Rightarrow> jsval list \<Rightarrow> jsval list" where
  "push_all n u [] acc = acc"
| "push_all n u (cls # rest) acc = push_all n u rest (acc @ [stamp n u cls])"

text \<open>The variable \<^verbatim>\<open>rawUrl\<close> after lines 260-264: \<^verbatim>\<open>source.raw\<close>, or when that is falsy
  and \<^verbatim>\<open>source.url\<close> is truthy, the URL without a final slash followed by
  \<^verbatim>\<open>/raw.json\<close>.\<close>

definition rawUrl :: "DocSource \<Rightarrow> jsval" where
  "rawUrl s =
     (if \<not> truthy (opt_str (raw s)) \<and> truthy (opt_str (url s)) then
        (case url s of
           None \<Rightarrow> opt_str (raw s)
         | Some u \<Rightarrow> Str ((if endsWith u ''/'' then butlast u else u) @ ''/raw.json''))
      else opt_str (raw s))"

fun error_message :: "js_error \<Rightarrow> string" where
  "error_message (TypeError m) = m"
| "error_message (SyntaxError m) = m"

text \<open>
  The body of the \<^verbatim>\<open>try\<close> block for one source. It returns the state it leaves and the
  exception it threw, if any; \<^verbatim>\<open>continue\<close> and normal completion both go to the next
  source.
\<close>

definition try_source :: "network \<Rightarrow> DocSource \<Rightarrow> agg \<Rightarrow> agg \<times> js_error option" where
  "try_source netw s st =
     (if truthy (embeddedData s) \<and> isArray (embeddedData s) then
        (st\<lparr>allData := push_all (name s)
               (js_or (opt_str (github s)) (js_or (opt_str (url s)) (opt_str (raw s))))
               (elements (embeddedData s)) (allData st)\<rparr>, None)
      else
        (case rawUrl s of
           Str u \<Rightarrow>
             (if u = [] then (st, None)
              else
                (let st1 = st\<lparr>net := net st @ [Issued u, Settled u]\<rparr> in
                 case netw u of
                   NetworkError m \<Rightarrow> (st1, Some (TypeError m))
                 | Response status body \<Rightarrow>
                     (if \<not> ok status then
                        (st1\<lparr>console := console st1 @
                            [''Failed to fetch '' @ name s @ '': '' @ nat_to_string status]\<rparr>, None)
                      else
                        (case body of
                           NotJson m \<Rightarrow> (st1, Some (SyntaxError m))
                         | Json data \<Rightarrow>
                             (case iterate data of
                                Inl e \<Rightarrow> (st1, Some e)
                              | Inr xs \<Rightarrow>
                                  (st1\<lparr>allData := push_all (name s)
                                      (js_or (opt_str (url s)) (opt_str (raw s))) xs (allData st1)\<rparr>,
                                   None))))))
         | v \<Rightarrow> (st, None)))"

text \<open>The loop over the registry with its \<^verbatim>\<open>catch\<close>, which writes one line and goes on.\<close>

fun fetch_loop :: "network \<Rightarrow> DocSource list \<Rightarrow> agg \<Rightarrow> agg" where
  "fetch_loop netw [] st = st"
| "fetch_loop netw (s # ss) st =
     (case try_source netw s st of
        (st', None) \<Rightarrow> fetch_loop netw ss st'
      | (st', Some e) \<Rightarrow>
          fetch_loop netw ss
            (st'\<lparr>console := console st' @ [''Error fetching '' @ name s @ '': '' @ error_message e]\<rparr>))"

definition fetchAllSources :: "network \<Rightarrow> DocSource list \<Rightarrow> agg" where
  "fetchAllSources netw sources = fetch_loop netw sources \<lparr>allData = [], console = [], net = []\<rparr>"

section \<open>JSON-RPC engine and query engine\<close>

text \<open>What the platform supplies to one call of the handler: the network, and the value of
  \<^verbatim>\<open>crypto.randomUUID()\<close>.\<close>

record world =
  net_fetch :: network
  randomUUID :: string

definition sq :: string where
  "sq = [CHR 0x27]"

definition mapE :: "('a \<Rightarrow> 'b thrown) \<Rightarrow> 'a list \<Rightarrow> 'b list thrown" where
  "mapE f xs = sequenceE (map f xs)"

text \<open>The literals \<^verbatim>\<open>[{ type: 'text', text: t }]\<close>,
  \<^verbatim>\<open>{ jsonrpc: '2.0', id, result: { content } }\<close> and
  \<^verbatim>\<open>{ jsonrpc: '2.0', id, error: { code, message } }\<close>.\<close>

definition text_content :: "jsval \<Rightarrow> jsval" where
  "text_content t = Arr [Obj [(''type'', Str ''text''), (''text'', t)]]"

definition result_envelope :: "jsval \<Rightarrow> jsval \<Rightarrow> jsval" where
  "result_envelope i content =
     Obj [(''jsonrpc'', Str ''2.0''), (''id'', i), (''result'', Obj [(''content'', content)])]"

definition error_envelope :: "jsval \<Rightarrow> int \<Rightarrow> string \<Rightarrow> jsval" where
  "error_envelope i c m =
     Obj [(''jsonrpc'', Str ''2.0''), (''id'', i),
          (''error'', Obj [(''code'', Num c), (''message'', Str m)])]"

definition internal_error :: "jsval \<Rightarrow> js_error \<Rightarrow> jsval" where
  "internal_error i e =
     Obj [(''jsonrpc'', Str ''2.0''), (''id'', i),
          (''error'', Obj [(''code'', Num (- 32603)), (''message'', Str ''Internal error''),
                           (''data'', Str (error_message e))])]"

subsection \<open>Method calls on values\<close>

fun call_toLowerCase :: "jsval \<Rightarrow> jsval thrown" where
  "call_toLowerCase (Str s) = Inr (Str (toLowerCase s))"
| "call_toLowerCase Undefined = Inl (TypeError ''Cannot read properties of undefined (reading toLowerCase)'')"
| "call_toLowerCase Null = Inl (TypeError ''Cannot read properties of null (reading toLowerCase)'')"
| "call_toLowerCase v = Inl (TypeError ''toLowerCase is not a function'')"

text \<open>\<^verbatim>\<open>v.includes(x)\<close>: substring search on a string (the argument converted to a string),
  membership in an array; no other value has the method.\<close>

fun call_includes :: "jsval \<Rightarrow> jsval \<Rightarrow> bool thrown" where
  "call_includes (Str s) x = bindE (ToString x) (\<lambda>t. Inr (str_includes s t))"
| "call_includes (Arr xs) x = Inr (list_ex (\<lambda>y. strict_eq y x) xs)"
| "call_includes Undefined x = Inl (TypeError ''Cannot read properties of undefined (reading includes)'')"
| "call_includes Null x = Inl (TypeError ''Cannot read properties of null (reading includes)'')"
| "call_includes v x = Inl (TypeError ''includes is not a function'')"

text \<open>\<^verbatim>\<open>v?.find(p)\<close>: undefined when \<open>v\<close> is null or undefined, the method of an array; no other
  value has the method.\<close>

fun call_find_opt :: "jsval \<Rightarrow> (jsval \<Rightarrow> bool thrown) \<Rightarrow> jsval thrown" where
  "call_find_opt Undefined p = Inr Undefined"
| "call_find_opt Null p = Inr Undefined"
| "call_find_opt (Arr xs) p = findE p xs"
| "call_find_opt v p = Inl (TypeError ''find is not a function'')"

subsection \<open>The six tools\<close>

text \<open>\<^verbatim>\<open>xs.filter(cls => cls._source === args.source)\<close>.\<close>

definition filter_source :: "jsval \<Rightarrow> jsval list \<Rightarrow> jsval list thrown" where
  "filter_source args xs =
     filterE (\<lambda>cls. bindE (get_prop cls ''_source'') (\<lambda>a.
                     bindE (get_prop args ''source'') (\<lambda>b. Inr (strict_eq a b)))) xs"

text \<open>\<^verbatim>\<open>xs.filter(cls => cls.name === args[k])\<close> for \<open>k\<close> one of \<^verbatim>\<open>name\<close>,
  \<^verbatim>\<open>className\<close>.\<close>

definition filter_name :: "string \<Rightarrow> jsval \<Rightarrow> jsval list \<Rightarrow> jsval list thrown" where
  "filter_name k args xs =
     filterE (\<lambda>cls. bindE (get_prop cls ''name'') (\<lambda>a.
                     bindE (get_prop args k) (\<lambda>b. Inr (strict_eq a b)))) xs"

definition list_sources :: "DocSource list \<Rightarrow> jsval" where
  "list_sources sources =
     text_content (stringify2 (Arr (map (\<lambda>s. Obj [(''name'', Str (name s)),
        (''url'', js_or (opt_str (url s)) (opt_str (raw s)))]) sources)))"

definition get_raw_api_data :: "jsval list \<Rightarrow> jsval \<Rightarrow> jsval thrown" where
  "get_raw_api_data rawData args =
     bindE (get_prop args ''source'') (\<lambda>src.
     bindE (if truthy src then filter_source args rawData else Inr rawData) (\<lambda>dataToReturn.
     Inr (text_content (stringify2 (Arr dataToReturn)))))"

text \<open>The callback of the filter of \<^verbatim>\<open>search_classes\<close>.\<close>

definition search_classes_keep :: "jsval \<Rightarrow> jsval \<Rightarrow> bool thrown" where
  "search_classes_keep args cls =
     bindE (get_prop args ''source'') (\<lambda>src.
     bindE (if truthy src
            then bindE (get_prop cls ''_source'') (\<lambda>a.
                 bindE (get_prop args ''source'') (\<lambda>b. Inr (\<not> strict_eq a b)))
            else Inr False) (\<lambda>other_source.
     if other_source then Inr False
     else
     bindE (get_prop args ''query'') (\<lambda>q.
     bindE (if truthy q
            then bindE (get_prop cls ''name'') (\<lambda>n.
                 bindE (call_toLowerCase n) (\<lambda>ln.
                 bindE (get_prop args ''query'') (\<lambda>q'.
                 bindE (call_toLowerCase q') (\<lambda>lq.
                 bindE (call_includes ln lq) (\<lambda>r. Inr (\<not> r))))))
            else Inr False) (\<lambda>no_match.
     if no_match then Inr False
     else
     bindE (get_prop args ''tag'') (\<lambda>tg.
     bindE (if truthy tg
            then bindE (get_prop cls ''tags'') (\<lambda>tags.
                 if \<not> truthy tags then Inr True
                 else bindE (get_prop args ''tag'') (\<lambda>tg'.
                      bindE (call_includes tags tg') (\<lambda>r. Inr (\<not> r))))
            else Inr False) (\<lambda>no_tag.
     Inr (\<not> no_tag)))))))"

definition search_classes :: "jsval list \<Rightarrow> jsval \<Rightarrow> jsval thrown" where
  "search_classes rawData args =
     bindE (filterE (search_classes_keep args) rawData) (\<lambda>filteredClasses.
     bindE (mapE (\<lambda>c. bindE (get_prop c ''name'') (\<lambda>n.
                      bindE (get_prop c ''tags'') (\<lambda>t.
                      bindE (get_prop c ''desc'') (\<lambda>d.
                      bindE (get_prop c ''_source'') (\<lambda>s.
                      Inr (Obj [(''name'', n), (''tags'', t), (''description'', d), (''source'', s)]))))))
              filteredClasses) (\<lambda>projected.
     Inr (text_content (stringify2 (Arr projected)))))"

definition get_class :: "jsval list \<Rightarrow> jsval \<Rightarrow> jsval thrown" where
  "get_class rawData args =
     bindE (filter_name ''name'' args rawData) (\<lambda>byName.
     bindE (get_prop args ''source'') (\<lambda>src.
     bindE (if truthy src then filter_source args byName else Inr byName) (\<lambda>classData.
     if length classData = 0 then
       bindE (get_prop args ''name'') (\<lambda>n.
       bindE (ToString n) (\<lambda>t.
       Inr (text_content (Str (''Class '' @ sq @ t @ sq @ '' not found'')))))
     else if length classData = 1 then
       Inr (text_content (stringify2 (classData ! 0)))
     else
       bindE (get_prop args ''name'') (\<lambda>n.
       bindE (ToString n) (\<lambda>t.
       bindE (mapE (\<lambda>c. bindE (get_prop c ''name'') (\<lambda>cn.
                        bindE (get_prop c ''_source'') (\<lambda>cs.
                        bindE (get_prop c ''desc'') (\<lambda>cd.
                        Inr (Obj [(''name'', cn), (''source'', cs), (''desc'', cd)])))))
                classData) (\<lambda>summary.
       bindE (ToString (stringify2 (Arr summary))) (\<lambda>listing.
       Inr (text_content (Str (''Found '' @ nat_to_string (length classData)
              @ '' classes named '' @ sq @ t @ sq
              @ '' from different sources. Specify '' @ sq @ ''source'' @ sq
              @ '' parameter to disambiguate.'' @ [CHR 0x0A, CHR 0x0A] @ listing))))))))))"

text \<open>The functions pushed for one class by the inner loop of \<^verbatim>\<open>search_functions\<close>, or
  none when the class is skipped by a \<^verbatim>\<open>continue\<close>.\<close>

definition search_functions_in :: "jsval \<Rightarrow> jsval \<Rightarrow> jsval list thrown" where
  "search_functions_in args cls =
     bindE (get_prop args ''source'') (\<lambda>src.
     bindE (if truthy src
            then bindE (get_prop cls ''_source'') (\<lambda>a.
                 bindE (get_prop args ''source'') (\<lambda>b. Inr (\<not> strict_eq a b)))
            else Inr False) (\<lambda>other_source.
     if other_source then Inr []
     else
     bindE (get_prop args ''className'') (\<lambda>cn.
     bindE (if truthy cn
            then bindE (get_prop cls ''name'') (\<lambda>a.
                 bindE (get_prop args ''className'') (\<lambda>b. Inr (\<not> strict_eq a b)))
            else Inr False) (\<lambda>other_class.
     if other_class then Inr []
     else
     bindE (get_prop cls ''functions'') (\<lambda>fs.
     bindE (iterate (js_or fs (Arr []))) (\<lambda>funcs.
     bindE (mapE (\<lambda>func.
              bindE (get_prop args ''query'') (\<lambda>q.
              bindE (if \<not> truthy q then Inr True
                     else bindE (get_prop func ''name'') (\<lambda>n.
                          bindE (call_toLowerCase n) (\<lambda>ln.
                          bindE (get_prop args ''query'') (\<lambda>q'.
                          bindE (call_toLowerCase q') (\<lambda>lq.
                          call_includes ln lq))))) (\<lambda>hit.
              if hit then
                bindE (get_prop cls ''name'') (\<lambda>cname.
                bindE (get_prop func ''name'') (\<lambda>fname.
                bindE (get_prop func ''function_type'') (\<lambda>ftype.
                bindE (get_prop func ''desc'') (\<lambda>fdesc.
                bindE (get_prop cls ''_source'') (\<lambda>csrc.
                Inr [Obj [(''className'', cname), (''name'', fname), (''type'', ftype),
                          (''description'', fdesc), (''source'', csrc)]])))))
              else Inr []))) funcs) (\<lambda>pushed.
     Inr (concat pushed))))))))"

definition search_functions :: "jsval list \<Rightarrow> jsval \<Rightarrow> jsval thrown" where
  "search_functions rawData args =
     bindE (mapE (search_functions_in args) rawData) (\<lambda>pushed.
     Inr (text_content (stringify2 (Arr (concat pushed)))))"

text \<open>The function pushed for one target class by the loop of \<^verbatim>\<open>get_function\<close>, if any.\<close>

definition found_in :: "jsval \<Rightarrow> jsval \<Rightarrow> jsval list thrown" where
  "found_in args targetClass =
     bindE (get_prop targetClass ''functions'') (\<lambda>fs.
     bindE (call_find_opt fs (\<lambda>f. bindE (get_prop f ''name'') (\<lambda>a.
                                    bindE (get_prop args ''functionName'') (\<lambda>b.
                                    Inr (strict_eq a b))))) (\<lambda>func.
     if truthy func then
       bindE (get_prop targetClass ''_source'') (\<lambda>csrc.
       bindE (get_prop targetClass ''name'') (\<lambda>cname.
       Inr [Obj (set_prop ''_className'' cname (set_prop ''_source'' csrc (spread func)))]))
     else Inr []))"

definition get_function :: "jsval list \<Rightarrow> jsval \<Rightarrow> jsval thrown" where
  "get_function rawData args =
     bindE (filter_name ''className'' args rawData) (\<lambda>byName.
     bindE (get_prop args ''source'') (\<lambda>src.
     bindE (if truthy src then filter_source args byName else Inr byName) (\<lambda>targetClasses.
     if length targetClasses = 0 then
       bindE (get_prop args ''className'') (\<lambda>cn.
       bindE (ToString cn) (\<lambda>t.
       Inr (text_content (Str (''Class '' @ sq @ t @ sq @ '' not found'')))))
     else
       bindE (mapE (found_in args) targetClasses) (\<lambda>pushed.
       (let foundFunctions = concat pushed in
        if length foundFunctions = 0 then
          bindE (get_prop args ''functionName'') (\<lambda>fn.
          bindE (ToString fn) (\<lambda>tf.
          bindE (get_prop args ''className'') (\<lambda>cn.
          bindE (ToString cn) (\<lambda>tc.
          Inr (text_content (Str (''Function '' @ sq @ tf @ sq @ '' not found in class ''
                                   @ sq @ tc @ sq)))))))
        else if length foundFunctions = 1 then
          Inr (text_content (stringify2 (foundFunctions ! 0)))
        else
          Inr (text_content (stringify2 (Arr foundFunctions))))))))"

subsection \<open>Request dispatch\<close>

definition string_property :: "string \<Rightarrow> jsval" where
  "string_property d = Obj [(''type'', Str ''string''), (''description'', Str d)]"

definition tool_catalogue :: "jsval list" where
  "tool_catalogue =
     [Obj [(''name'', Str ''list_sources''),
           (''description'', Str ''List all documentation sources configured in this MCP server''),
           (''inputSchema'', Obj [(''type'', Str ''object''), (''properties'', Obj [])])],
      Obj [(''name'', Str ''get_raw_api_data''),
           (''description'', Str ''Get the complete raw API documentation data from all sources''),
           (''inputSchema'', Obj [(''type'', Str ''object''), (''properties'', Obj
              [(''source'', string_property ''Filter by source name (optional)'')])])],
      Obj [(''name'', Str ''search_classes''),
           (''description'', Str ''Search for classes by name or tag across all sources''),
           (''inputSchema'', Obj [(''type'', Str ''object''), (''properties'', Obj
              [(''query'', string_property ''Search query for class name''),
               (''tag'', string_property ''Filter by tag''),
               (''source'', string_property ''Filter by source name'')])])],
      Obj [(''name'', Str ''get_class''),
           (''description'', Str ''Get detailed information about a specific class''),
           (''inputSchema'', Obj [(''type'', Str ''object''), (''properties'', Obj
              [(''name'', string_property ''The class name''),
               (''source'', string_property
                  ''The source name (optional, useful if multiple sources have same class name)'')]),
              (''required'', Arr [Str ''name''])])],
      Obj [(''name'', Str ''search_functions''),
           (''description'', Str ''Search for functions across all classes and sources''),
           (''inputSchema'', Obj [(''type'', Str ''object''), (''properties'', Obj
              [(''query'', string_property ''Search query for function name''),
               (''className'', string_property ''Filter by class name''),
               (''source'', string_property ''Filter by source name'')])])],
      Obj [(''name'', Str ''get_function''),
           (''description'', Str ''Get detailed information about a specific function''),
           (''inputSchema'', Obj [(''type'', Str ''object''), (''properties'', Obj
              [(''className'', string_property ''The class name''),
               (''functionName'', string_property ''The function name''),
               (''source'', string_property ''The source name (optional)'')]),
              (''required'', Arr [Str ''className'', Str ''functionName''])])]]"

text \<open>The branch \<^verbatim>\<open>method === 'tools/call'\<close>: \<^verbatim>\<open>list_sources\<close> is answered from the
  registry, every other name first aggregates and then goes through the \<^verbatim>\<open>switch\<close>.\<close>

definition tools_call :: "world \<Rightarrow> DocSource list \<Rightarrow> jsval \<Rightarrow> jsval \<Rightarrow> jsval thrown" where
  "tools_call w sources i params =
     (if params = Undefined \<or> params = Null
      then Inl (TypeError ''Cannot destructure property name of params'')
      else
        bindE (get_prop params ''name'') (\<lambda>nm.
        bindE (get_prop params ''arguments'') (\<lambda>args.
        if strict_eq nm (Str ''list_sources'') then Inr (result_envelope i (list_sources sources))
        else
          (let rawData = allData (fetchAllSources (net_fetch w) sources) in
           if strict_eq nm (Str ''get_raw_api_data'') then
             bindE (get_raw_api_data rawData args) (\<lambda>content. Inr (result_envelope i content))
           else if strict_eq nm (Str ''search_classes'') then
             bindE (search_classes rawData args) (\<lambda>content. Inr (result_envelope i content))
           else if strict_eq nm (Str ''get_class'') then
             bindE (get_class rawData args) (\<lambda>content. Inr (result_envelope i content))
           else if strict_eq nm (Str ''search_functions'') then
             bindE (search_functions rawData args) (\<lambda>content. Inr (result_envelope i content))
           else if strict_eq nm (Str ''get_function'') then
             bindE (get_function rawData args) (\<lambda>content. Inr (result_envelope i content))
           else
             bindE (ToString nm) (\<lambda>t.
             Inr (error_envelope i (- 32601) (''Unknown tool: '' @ t)))))))"

text \<open>The body of the \<^verbatim>\<open>try\<close> block of \<^verbatim>\<open>handleRequest\<close>.\<close>

definition handle_method :: "world \<Rightarrow> DocSource list \<Rightarrow> jsval \<Rightarrow> jsval \<Rightarrow> jsval \<Rightarrow> jsval thrown" where
  "handle_method w sources i meth params =
     (if strict_eq meth (Str ''initialize'') then
        Inr (Obj [(''jsonrpc'', Str ''2.0''), (''id'', i),
                  (''result'', Obj [(''protocolVersion'', Str ''2025-03-26''),
                                    (''capabilities'', Obj [(''tools'', Obj [])]),
                                    (''serverInfo'', Obj [(''name'', Str ''moonwave-mcp-server''),
                                                          (''version'', Str ''1.0.0'')])]),
                  (''_sessionId'', Str (randomUUID w))])
      else if strict_eq meth (Str ''tools/list'') then
        Inr (Obj [(''jsonrpc'', Str ''2.0''), (''id'', i),
                  (''result'', Obj [(''tools'', Arr tool_catalogue)])])
      else if strict_eq meth (Str ''tools/call'') then tools_call w sources i params
      else Inr (error_envelope i (- 32601) ''Method not found''))"

text \<open>\<^verbatim>\<open>handleRequest(message, sessionId, env)\<close>; the session identifier is not used by the
  function. The destructuring of the message is outside the \<^verbatim>\<open>try\<close>; every exception
  of the body becomes an internal-error envelope.\<close>

definition handleRequest :: "world \<Rightarrow> DocSource list \<Rightarrow> jsval \<Rightarrow> jsval thrown" where
  "handleRequest w sources message =
     (if message = Undefined \<or> message = Null
      then Inl (TypeError ''Cannot destructure property jsonrpc of message'')
      else
        bindE (get_prop message ''jsonrpc'') (\<lambda>jsonrpc.
        bindE (get_prop message ''id'') (\<lambda>i.
        bindE (get_prop message ''method'') (\<lambda>meth.
        bindE (get_prop message ''params'') (\<lambda>params.
        Inr (case handle_method w sources i meth params of
               Inl e \<Rightarrow> internal_error i e
             | Inr r \<Rightarrow> r))))))"

section \<open>Transport\<close>

text \<open>
  What the handlers read of an HTTP request: the method, the path of the URL, the headers
  \<^verbatim>\<open>Origin\<close>, \<^verbatim>\<open>Accept\<close> and \<^verbatim>\<open>Mcp-Session-Id\<close> (\<open>None\<close> when
  \<^verbatim>\<open>headers.get\<close> gives \<^verbatim>\<open>null\<close>), and what \<^verbatim>\<open>request.json()\<close> gives.
  Of a response: the status, the headers set by the code, and the body. The body of a streamed
  response is the list of frames written before the stream is closed; the stream opened by
  \<^verbatim>\<open>handleGet\<close> only carries keep-alive comments driven by timers.
\<close>

record request =
  http_method :: string
  pathname :: string
  origin :: "string option"
  accept :: "string option"
  sessionId :: "string option"
  json :: payload

datatype body = NoBody | TextBody string | EventStream "string list" | KeepAliveStream

record response =
  status :: nat
  headers :: "(string \<times> string) list"
  body :: body

definition getCorsHeaders :: "request \<Rightarrow> (string \<times> string) list" where
  "getCorsHeaders request =
     [(''Access-Control-Allow-Origin'',
         (case origin request of None \<Rightarrow> ''*'' | Some v \<Rightarrow> if v = [] then ''*'' else v)),
      (''Access-Control-Allow-Methods'', ''GET, POST, OPTIONS''),
      (''Access-Control-Allow-Headers'', ''Content-Type, Accept, Mcp-Session-Id, Last-Event-ID'')]"

fun text_of :: "jsval \<Rightarrow> string" where
  "text_of (Str s) = s"
| "text_of v = ''undefined''"

fun body_of :: "jsval \<Rightarrow> body" where
  "body_of (Str s) = TextBody s"
| "body_of v = NoBody"

text \<open>\<^verbatim>\<open>msg.method && msg.id !== undefined\<close> and \<^verbatim>\<open>msg.id !== undefined\<close>.\<close>

definition is_request :: "jsval \<Rightarrow> bool thrown" where
  "is_request msg =
     bindE (get_prop msg ''method'') (\<lambda>m.
     if truthy m then bindE (get_prop msg ''id'') (\<lambda>i. Inr (i \<noteq> Undefined)) else Inr False)"

definition has_id :: "jsval \<Rightarrow> bool thrown" where
  "has_id msg = bindE (get_prop msg ''id'') (\<lambda>i. Inr (i \<noteq> Undefined))"

definition frame :: "jsval \<Rightarrow> string" where
  "frame v = ''data: '' @ text_of (stringify v) @ [CHR 0x0A, CHR 0x0A]"

text \<open>The frames written by the loop of \<^verbatim>\<open>handleSSE\<close>. The \<open>k\<close>-th call of
  \<^verbatim>\<open>handleRequest\<close> runs in the world \<open>ws k\<close>. An exception ends the loop with one
  internal-error frame.\<close>

fun sse_frames :: "(nat \<Rightarrow> world) \<Rightarrow> DocSource list \<Rightarrow> nat \<Rightarrow> jsval list \<Rightarrow> string list" where
  "sse_frames ws sources k [] = []"
| "sse_frames ws sources k (msg # rest) =
     (case has_id msg of
        Inl e \<Rightarrow>
          [frame (Obj [(''jsonrpc'', Str ''2.0''),
                       (''error'', Obj [(''code'', Num (- 32603)), (''message'', Str ''Internal error''),
                                        (''data'', Str (error_message e))])])]
      | Inr False \<Rightarrow> sse_frames ws sources k rest
      | Inr True \<Rightarrow>
          (case handleRequest (ws k) sources msg of
             Inl e \<Rightarrow>
               [frame (Obj [(''jsonrpc'', Str ''2.0''),
                            (''error'', Obj [(''code'', Num (- 32603)), (''message'', Str ''Internal error''),
                                             (''data'', Str (error_message e))])])]
           | Inr r \<Rightarrow> frame r # sse_frames ws sources (Suc k) rest))"

definition handleSSE :: "(nat \<Rightarrow> world) \<Rightarrow> DocSource list \<Rightarrow> jsval list \<Rightarrow> request \<Rightarrow> response" where
  "handleSSE ws sources messages request =
     \<lparr>status = 200,
      headers = [(''Content-Type'', ''text/event-stream''), (''Cache-Control'', ''no-cache''),
                 (''Connection'', ''keep-alive'')] @ getCorsHeaders request,
      body = EventStream (sse_frames ws sources 0 messages)\<rparr>"

text \<open>The calls \<^verbatim>\<open>messages.filter(...).map(msg => handleRequest(...))\<close> joined by
  \<^verbatim>\<open>Promise.all\<close>.\<close>

definition dispatch :: "(nat \<Rightarrow> world) \<Rightarrow> DocSource list \<Rightarrow> jsval list \<Rightarrow> jsval list thrown" where
  "dispatch ws sources messages =
     bindE (filterE has_id messages) (\<lambda>reqs.
     mapE (\<lambda>(k, msg). handleRequest (ws k) sources msg) (enumerate_from 0 reqs))"

definition handlePost :: "(nat \<Rightarrow> world) \<Rightarrow> DocSource list \<Rightarrow> request \<Rightarrow> response thrown" where
  "handlePost ws sources request =
     (case json request of
        NotJson m \<Rightarrow>
          Inr \<lparr>status = 400,
               headers = (''Content-Type'', ''application/json'') # getCorsHeaders request,
               body = body_of (stringify (Obj [(''jsonrpc'', Str ''2.0''),
                        (''error'', Obj [(''code'', Num (- 32700)), (''message'', Str ''Parse error'')])]))\<rparr>
      | Json b \<Rightarrow>
          (let messages = (if isArray b then elements b else [b]) in
           bindE (someE is_request messages) (\<lambda>hasRequests.
           if \<not> hasRequests then
             Inr \<lparr>status = 202, headers = getCorsHeaders request, body = NoBody\<rparr>
           else if str_includes (text_of (js_or (opt_str (accept request)) (Str []))) ''text/event-stream'' then
             Inr (handleSSE ws sources messages request)
           else
             bindE (dispatch ws sources messages) (\<lambda>responses.
             Inr \<lparr>status = 200,
                  headers = (''Content-Type'', ''application/json'') # getCorsHeaders request,
                  body = body_of (stringify (if length responses = 1 then responses ! 0
                                             else Arr responses))\<rparr>))))"

definition handleGet :: "request \<Rightarrow> response" where
  "handleGet request =
     (if \<not> str_includes (text_of (js_or (opt_str (accept request)) (Str []))) ''text/event-stream'' then
        \<lparr>status = 405, headers = [], body = TextBody ''Method Not Allowed''\<rparr>
      else
        \<lparr>status = 200,
         headers = [(''Content-Type'', ''text/event-stream''), (''Cache-Control'', ''no-cache''),
                    (''Connection'', ''keep-alive'')] @ getCorsHeaders request,
         body = KeepAliveStream\<rparr>)"

text \<open>The exported \<^verbatim>\<open>fetch(request, env, ctx)\<close>. A result \<open>Inl e\<close> is an exception that
  leaves the handler: the code produces no response.\<close>

definition fetch :: "(nat \<Rightarrow> world) \<Rightarrow> DocSource list \<Rightarrow> request \<Rightarrow> response thrown" where
  "fetch ws sources request =
     (if pathname request = ''/mcp'' \<or> pathname request = ''/mcp/'' then
        (if http_method request = ''POST'' then handlePost ws sources request
         else if http_method request = ''GET'' then Inr (handleGet request)
         else if http_method request = ''OPTIONS'' then
           Inr \<lparr>status = 204, headers = getCorsHeaders request, body = NoBody\<rparr>
         else Inr \<lparr>status = 405, headers = [], body = TextBody ''Method Not Allowed''\<rparr>)
      else if pathname request = ''/'' \<and> http_method request = ''GET'' then
        Inr \<lparr>status = 200,
             headers = (''Content-Type'', ''application/json'') # getCorsHeaders request,
             body = body_of (stringify (Obj
               [(''name'', Str ''moonwave-mcp-server''),
                (''version'', Str ''1.0.0''),
                (''description'', Str ''MCP server for Moonwave API documentation''),
                (''protocolVersion'', Str ''2025-03-26''),
                (''sources'', Arr (map (\<lambda>s. Obj [(''name'', Str (name s)),
                     (''url'', js_or (opt_str (url s)) (opt_str (raw s)))]) sources)),
                (''mcpEndpoint'', Str ''/mcp'')]))\<rparr>
      else Inr \<lparr>status = 404, headers = [], body = TextBody ''Not Found''\<rparr>)"

section \<open>Notions used to state the properties\<close>

subsection \<open>Aggregation\<close>

text \<open>A source is embedded when the first branch of the loop body takes it.\<close>

definition embedded :: "DocSource \<Rightarrow> bool" where
  "embedded s = isArray (embeddedData s)"

text \<open>The locator stamped on the records of a source.\<close>

definition locator :: "DocSource \<Rightarrow> jsval" where
  "locator s =
     (if embedded s then js_or (opt_str (github s)) (js_or (opt_str (url s)) (opt_str (raw s)))
      else js_or (opt_str (url s)) (opt_str (raw s)))"

text \<open>The URL fetched for a source, if the loop body fetches one.\<close>

definition remote_url :: "DocSource \<Rightarrow> string option" where
  "remote_url s =
     (if embedded s then None
      else (case rawUrl s of Str u \<Rightarrow> if u = [] then None else Some u | v \<Rightarrow> None))"

text \<open>The original records of a source, in their original order: the embedded snapshot, or
  what the payload of a successful fetch lists.\<close>

definition source_records :: "network \<Rightarrow> DocSource \<Rightarrow> jsval list" where
  "source_records netw s =
     (if embedded s then elements (embeddedData s)
      else (case remote_url s of
              None \<Rightarrow> []
            | Some u \<Rightarrow>
                (case netw u of
                   NetworkError m \<Rightarrow> []
                 | Response st b \<Rightarrow>
                     (if \<not> ok st then []
                      else (case b of
                              NotJson m \<Rightarrow> []
                            | Json d \<Rightarrow> (case iterate d of Inl e \<Rightarrow> [] | Inr xs \<Rightarrow> xs))))))"

definition contribution :: "network \<Rightarrow> DocSource \<Rightarrow> jsval list" where
  "contribution netw s = map (stamp (name s) (locator s)) (source_records netw s)"

text \<open>
  The failures the code recognises for a source it fetches: the fetch is rejected (network
  error), the status is not a success status, \<^verbatim>\<open>response.json()\<close> rejects the body, or the
  body parses to a value that \<^verbatim>\<open>for...of\<close> cannot iterate (\<^verbatim>\<open>null\<close>, a boolean, a number,
  an object). The code validates nothing else: a JSON string is iterated character by
  character and the elements of an array are taken as records whatever they are.
\<close>

definition fetch_fails :: "network \<Rightarrow> DocSource \<Rightarrow> bool" where
  "fetch_fails netw s =
     (case remote_url s of
        None \<Rightarrow> False
      | Some u \<Rightarrow>
          (case netw u of
             NetworkError m \<Rightarrow> True
           | Response st b \<Rightarrow>
               (if \<not> ok st then True
                else (case b of
                        NotJson m \<Rightarrow> True
                      | Json d \<Rightarrow> (case iterate d of Inl e \<Rightarrow> True | Inr xs \<Rightarrow> False)))))"

text \<open>
  The failure of a fetch in the words of the specification: a network error, a non-success
  status, or a malformed payload. A payload is well formed when it is the sequence of class
  records of the data model, a JSON array of objects each with a string \<^verbatim>\<open>name\<close>.
\<close>

fun is_class_record :: "jsval \<Rightarrow> bool" where
  "is_class_record (Obj kvs) = (case lookup kvs ''name'' of Str n \<Rightarrow> True | v \<Rightarrow> False)"
| "is_class_record v = False"

fun well_formed_payload :: "payload \<Rightarrow> bool" where
  "well_formed_payload (Json (Arr xs)) = list_all is_class_record xs"
| "well_formed_payload p = False"

definition specified_fetch_failure :: "network \<Rightarrow> DocSource \<Rightarrow> bool" where
  "specified_fetch_failure netw s =
     (case remote_url s of
        None \<Rightarrow> False
      | Some u \<Rightarrow>
          (case netw u of
             NetworkError m \<Rightarrow> True
           | Response st b \<Rightarrow> (if ok st then \<not> well_formed_payload b else True)))"

text \<open>The lines written to the console for one source.\<close>

definition error_line :: "DocSource \<Rightarrow> string \<Rightarrow> string" where
  "error_line s m = ''Error fetching '' @ name s @ '': '' @ m"

definition failed_line :: "DocSource \<Rightarrow> nat \<Rightarrow> string" where
  "failed_line s st = ''Failed to fetch '' @ name s @ '': '' @ nat_to_string st"

definition diagnostics :: "network \<Rightarrow> DocSource \<Rightarrow> string list" where
  "diagnostics netw s =
     (case remote_url s of
        None \<Rightarrow> []
      | Some u \<Rightarrow>
          (case netw u of
             NetworkError m \<Rightarrow> [error_line s m]
           | Response st b \<Rightarrow>
               (if \<not> ok st then [failed_line s st]
                else (case b of
                        NotJson m \<Rightarrow> [error_line s m]
                      | Json d \<Rightarrow>
                          (case iterate d of
                             Inl e \<Rightarrow> [error_line s (error_message e)]
                           | Inr xs \<Rightarrow> [])))))"

text \<open>The state after one round of the loop of \<open>fetch_loop\<close>: the \<^verbatim>\<open>catch\<close> applied to
  what the body of the \<^verbatim>\<open>try\<close> left.\<close>

definition after_catch :: "DocSource \<Rightarrow> agg \<times> js_error option \<Rightarrow> agg" where
  "after_catch s r =
     (case r of
        (st', None) \<Rightarrow> st'
      | (st', Some e) \<Rightarrow>
          st'\<lparr>console := console st' @ [''Error fetching '' @ name s @ '': '' @ error_message e]\<rparr>)"

text \<open>The URLs fetched in one run, in registry order.\<close>

definition remote_urls :: "DocSource list \<Rightarrow> string list" where
  "remote_urls sources = concat (map (\<lambda>s. case remote_url s of None \<Rightarrow> [] | Some u \<Rightarrow> [u]) sources)"

text \<open>A parallel fan-out with a completion barrier, as a property of the order of network
  events: every fetch is issued before the outcome of any fetch is awaited.\<close>

fun is_issued :: "net_event \<Rightarrow> bool" where
  "is_issued (Issued u) = True"
| "is_issued (Settled u) = False"

definition fan_out_then_join :: "net_event list \<Rightarrow> bool" where
  "fan_out_then_join evs = list_all (\<lambda>e. \<not> is_issued e) (dropWhile is_issued evs)"

subsection \<open>Queries\<close>

text \<open>The value of a property of a corpus record, total: \<open>Undefined\<close> where the read would
  throw.\<close>

definition field :: "jsval \<Rightarrow> string \<Rightarrow> jsval" where
  "field v k = (case get_prop v k of Inl e \<Rightarrow> Undefined | Inr x \<Rightarrow> x)"

text \<open>The names of the catalogue returned by \<^verbatim>\<open>tools/list\<close>.\<close>

definition tool_names :: "string list" where
  "tool_names = map (\<lambda>t. text_of (field t ''name'')) tool_catalogue"

text \<open>A record matches a class name exactly, and the source filter when one is given.\<close>

definition class_matches :: "string \<Rightarrow> jsval \<Rightarrow> jsval \<Rightarrow> bool" where
  "class_matches cn src c =
     (field c ''name'' = Str cn \<and> (if truthy src then field c ''_source'' = src else True))"

text \<open>The entry of a candidate in the listing of a disambiguation message, and the sentence
  in front of the listing.\<close>

definition summary_of :: "jsval \<Rightarrow> jsval" where
  "summary_of c = Obj [(''name'', field c ''name''), (''source'', field c ''_source''),
                       (''desc'', field c ''desc'')]"

definition disambiguation_header :: "nat \<Rightarrow> string \<Rightarrow> string" where
  "disambiguation_header n cn =
     ''Found '' @ nat_to_string n @ '' classes named '' @ sq @ cn @ sq
       @ '' from different sources. Specify '' @ sq @ ''source'' @ sq
       @ '' parameter to disambiguate.''"


text \<open>The text answered by \<^verbatim>\<open>get_class\<close> for a list of matching records.\<close>

definition get_class_text :: "string \<Rightarrow> jsval list \<Rightarrow> string" where
  "get_class_text cn found =
     (if found = [] then ''Class '' @ sq @ cn @ sq @ '' not found''
      else if length found = 1 then text_of (stringify2 (found ! 0))
      else disambiguation_header (length found) cn @ [CHR 0x0A, CHR 0x0A]
             @ text_of (stringify2 (Arr (map summary_of found))))"

text \<open>
  A record has well-formed functions when its \<^verbatim>\<open>functions\<close> field is absent, \<^verbatim>\<open>null\<close>,
  or an array none of whose elements is \<^verbatim>\<open>null\<close> (or undefined), as the sequence of
  FunctionRecord of a ClassRecord is.
\<close>

fun nullish :: "jsval \<Rightarrow> bool" where
  "nullish Undefined = True"
| "nullish Null = True"
| "nullish v = False"

definition wf_functions :: "jsval \<Rightarrow> bool" where
  "wf_functions c =
     (case field c ''functions'' of
        Undefined \<Rightarrow> True
      | Null \<Rightarrow> True
      | Arr fs \<Rightarrow> list_all (\<lambda>f. \<not> nullish f) fs
      | v \<Rightarrow> False)"

text \<open>A function record annotated with its owning class and source, and the match of a
  function name in one class: the first function of the class with exactly that name.\<close>

definition annotate :: "jsval \<Rightarrow> jsval \<Rightarrow> jsval" where
  "annotate c f =
     Obj (set_prop ''_className'' (field c ''name'')
           (set_prop ''_source'' (field c ''_source'') (spread f)))"

definition function_match :: "string \<Rightarrow> jsval \<Rightarrow> jsval list" where
  "function_match fn c =
     (case field c ''functions'' of
        Arr fs \<Rightarrow> (case find (\<lambda>f. field f ''name'' = Str fn) fs of
                     None \<Rightarrow> []
                   | Some f \<Rightarrow> [annotate c f])
      | v \<Rightarrow> [])"

text \<open>The text answered by \<^verbatim>\<open>get_function\<close> for a list of target classes.\<close>

definition get_function_text :: "string \<Rightarrow> string \<Rightarrow> jsval list \<Rightarrow> string" where
  "get_function_text cn fn targets =
     (if targets = [] then ''Class '' @ sq @ cn @ sq @ '' not found''
      else if concat (map (function_match fn) targets) = [] then
        ''Function '' @ sq @ fn @ sq @ '' not found in class '' @ sq @ cn @ sq
      else if length (concat (map (function_match fn) targets)) = 1 then
        text_of (stringify2 (concat (map (function_match fn) targets) ! 0))
      else text_of (stringify2 (Arr (concat (map (function_match fn) targets)))))"

subsection \<open>Transport\<close>

text \<open>The messages of a parsed body, and what makes a body contain a request.\<close>

definition messages_of :: "jsval \<Rightarrow> jsval list" where
  "messages_of b = (if isArray b then elements b else [b])"

definition true_request :: "jsval \<Rightarrow> bool" where
  "true_request m = (truthy (field m ''method'') \<and> field m ''id'' \<noteq> Undefined)"

text \<open>The client accepts an event stream.\<close>

definition wants_stream :: "request \<Rightarrow> bool" where
  "wants_stream request =
     str_includes (text_of (js_or (opt_str (accept request)) (Str []))) ''text/event-stream''"

text \<open>The envelope returned for a message that is neither \<^verbatim>\<open>null\<close> nor undefined.\<close>

definition response_of :: "world \<Rightarrow> DocSource list \<Rightarrow> jsval \<Rightarrow> jsval" where
  "response_of w sources m = (case handleRequest w sources m of Inl e \<Rightarrow> Undefined | Inr r \<Rightarrow> r)"

section \<open>An example deployment\<close>

text \<open>Three sources: a documentation site, a raw-data URL whose server answers 503, and a
  snapshot embedded at deploy time. Two of them document a class \<^verbatim>\<open>Foo\<close>.\<close>

definition src_site :: DocSource where
  "src_site = \<lparr>name = ''A'', url = Some ''https://a.example/docs/'', raw = None, github = None,
                extract_flag = None, embeddedData = Undefined\<rparr>"

definition src_down :: DocSource where
  "src_down = \<lparr>name = ''B'', url = None, raw = Some ''https://b.example/raw.json'', github = None,
                extract_flag = None, embeddedData = Undefined\<rparr>"

definition src_snapshot :: DocSource where
  "src_snapshot = \<lparr>name = ''C'', url = None, raw = None, github = Some ''owner/c'',
                    extract_flag = None,
                    embeddedData = Arr [Obj [(''name'', Str ''Foo''), (''desc'', Str ''snapshot''),
                      (''functions'', Arr [Obj [(''name'', Str ''render''),
                                                (''function_type'', Str ''method'')]])]]\<rparr>"

definition example_net :: network where
  "example_net u =
     (if u = ''https://a.example/docs/raw.json'' then
        Response 200 (Json (Arr
          [Obj [(''name'', Str ''Foo''),
                (''functions'', Arr [Obj [(''name'', Str ''render''), (''function_type'', Str ''static'')],
                                     Obj [(''name'', Str ''update'')]])],
           Obj [(''name'', Str ''Bar''), (''tags'', Arr [Str ''ui''])]]))
      else if u = ''https://b.example/raw.json'' then Response 503 (NotJson ''Unexpected token'')
      else NetworkError ''fetch failed'')"

text \<open>The same network, except that the second server answers 200 with an HTML error page
  sent as a JSON string.\<close>

definition html_net :: network where
  "html_net u =
     (if u = ''https://b.example/raw.json'' then Response 200 (Json (Str ''<html>''))
      else example_net u)"

definition example_world :: world where
  "example_world = \<lparr>net_fetch = example_net, randomUUID = ''00000000-0000-4000-8000-000000000000''\<rparr>"

definition offline_world :: world where
  "offline_world = \<lparr>net_fetch = (\<lambda>u. NetworkError ''offline''),
                     randomUUID = ''11111111-1111-4111-8111-111111111111''\<rparr>"

text \<open>A \<^verbatim>\<open>tools/call\<close> request.\<close>

definition tool_call :: "jsval \<Rightarrow> string \<Rightarrow> jsval \<Rightarrow> jsval" where
  "tool_call i tool args =
     Obj [(''jsonrpc'', Str ''2.0''), (''id'', i), (''method'', Str ''tools/call''),
          (''params'', Obj [(''name'', Str tool), (''arguments'', args)])]"

definition post :: "jsval \<Rightarrow> request" where
  "post b = \<lparr>http_method = ''POST'', pathname = ''/mcp'', origin = Some ''https://client.example'',
             accept = Some ''application/json'', sessionId = None, json = Json b\<rparr>"

text \<open>A batch of one request and one JSON-RPC response object.\<close>

definition example_batch :: jsval where
  "example_batch =
     Arr [Obj [(''jsonrpc'', Str ''2.0''), (''id'', Num 1), (''method'', Str ''ping'')],
          Obj [(''jsonrpc'', Str ''2.0''), (''id'', Num 2), (''result'', Obj [])]]"

section \<open>Properties of the aggregator\<close>

lemma bindE_Inr [simp]: "bindE (Inr x) f = f x"
  by (simp add: bindE_def)

lemma bindE_Inl [simp]: "bindE (Inl e) f = Inl e"
  by (simp add: bindE_def)

lemma push_all_eq: "push_all n u xs acc = acc @ map (stamp n u) xs"
  by (induction xs arbitrary: acc) auto

lemma isArray_truthy: "isArray v \<Longrightarrow> truthy v"
  by (cases v) auto

lemma try_source_allData:
  "allData (fst (try_source netw s st)) = allData st @ contribution netw s"
  by (auto simp: try_source_def contribution_def source_records_def locator_def embedded_def
      remote_url_def push_all_eq isArray_truthy Let_def
      split: jsval.splits fetch_outcome.splits payload.splits sum.splits)

lemma try_source_net:
  "net (fst (try_source netw s st)) =
     net st @ (case remote_url s of None \<Rightarrow> [] | Some u \<Rightarrow> [Issued u, Settled u])"
  by (auto simp: try_source_def embedded_def remote_url_def isArray_truthy Let_def
      split: jsval.splits fetch_outcome.splits payload.splits sum.splits)

lemma fetch_loop_Cons: "fetch_loop netw (s # ss) st = fetch_loop netw ss (after_catch s (try_source netw s st))"
  by (simp add: after_catch_def split: prod.splits option.splits)

lemma after_catch_allData:
  "allData (after_catch s (try_source netw s st)) = allData st @ contribution netw s"
  using try_source_allData [of netw s st]
  by (cases "try_source netw s st") (auto simp: after_catch_def split: option.splits)

lemma after_catch_net:
  "net (after_catch s (try_source netw s st)) =
     net st @ (case remote_url s of None \<Rightarrow> [] | Some u \<Rightarrow> [Issued u, Settled u])"
  using try_source_net [of netw s st]
  by (cases "try_source netw s st") (auto simp: after_catch_def split: option.splits)

lemma after_catch_console:
  "console (after_catch s (try_source netw s st)) = console st @ diagnostics netw s"
  by (auto simp: after_catch_def try_source_def diagnostics_def embedded_def
      remote_url_def isArray_truthy Let_def error_line_def failed_line_def
      split: jsval.splits fetch_outcome.splits payload.splits sum.splits)

lemma fetch_loop_allData:
  "allData (fetch_loop netw ss st) = allData st @ concat (map (contribution netw) ss)"
  by (induction ss arbitrary: st) (simp_all add: fetch_loop_Cons after_catch_allData del: fetch_loop.simps(2))

lemma fetch_loop_net:
  "net (fetch_loop netw ss st) = net st @ concat (map (\<lambda>u. [Issued u, Settled u]) (remote_urls ss))"
proof (induction ss arbitrary: st)
  case Nil
  then show ?case by (simp add: remote_urls_def)
next
  case (Cons s ss)
  show ?case
    by (cases "remote_url s")
       (simp_all add: fetch_loop_Cons after_catch_net Cons.IH remote_urls_def del: fetch_loop.simps(2))
qed

lemma fetch_loop_console:
  "console (fetch_loop netw ss st) = console st @ concat (map (diagnostics netw) ss)"
  by (induction ss arbitrary: st) (simp_all add: fetch_loop_Cons after_catch_console del: fetch_loop.simps(2))

lemma fetchAllSources_allData:
  "allData (fetchAllSources netw sources) = concat (map (contribution netw) sources)"
  by (simp add: fetchAllSources_def fetch_loop_allData)

lemma fetchAllSources_console:
  "console (fetchAllSources netw sources) = concat (map (diagnostics netw) sources)"
  by (simp add: fetchAllSources_def fetch_loop_console)

lemma fetchAllSources_net:
  "net (fetchAllSources netw sources) = concat (map (\<lambda>u. [Issued u, Settled u]) (remote_urls sources))"
  by (simp add: fetchAllSources_def fetch_loop_net)

lemma fails_no_contribution: "fetch_fails netw s \<Longrightarrow> contribution netw s = []"
  by (auto simp: fetch_fails_def contribution_def source_records_def remote_url_def
      split: option.splits fetch_outcome.splits payload.splits sum.splits if_splits)

lemma sublist_name_line: "sublist n (a @ n @ b)"
  by (auto simp: sublist_def)

lemma sublist_error_line: "sublist (name s) (error_line s m)"
  unfolding error_line_def by (rule sublist_name_line)

lemma sublist_failed_line: "sublist (name s) (failed_line s st)"
  unfolding failed_line_def by (rule sublist_name_line)

lemma fails_one_diagnostic:
  "fetch_fails netw s \<Longrightarrow> \<exists>line. diagnostics netw s = [line] \<and> sublist (name s) line"
  by (auto simp: fetch_fails_def diagnostics_def sublist_error_line sublist_failed_line
      split: option.splits fetch_outcome.splits payload.splits sum.splits if_splits)

lemma map_of_set_prop_same: "map_of (set_prop k v kvs) k = Some v"
  by (induction kvs) auto

lemma map_of_set_prop_other: "k' \<noteq> k \<Longrightarrow> map_of (set_prop k v kvs) k' = map_of kvs k'"
  by (induction kvs) auto

lemma stamp_fields:
  "\<exists>kvs. stamp n u cls = Obj kvs \<and> map_of kvs ''_source'' = Some (Str n)
         \<and> map_of kvs ''_sourceUrl'' = Some u"
  by (simp add: stamp_def map_of_set_prop_same map_of_set_prop_other)

text \<open>A payload that is a JSON string is not malformed for the loop: its characters become
  records.\<close>

lemma string_payload_is_iterated:
  assumes "remote_url s = Some u" and "netw u = Response 200 (Json (Str ''ab''))"
  shows "contribution netw s = [stamp (name s) (locator s) (Str ''a''), stamp (name s) (locator s) (Str ''b'')]"
proof -
  have "\<not> embedded s"
    using assms(1) by (auto simp: remote_url_def split: if_splits)
  then show ?thesis
    using assms by (simp add: contribution_def source_records_def ok_def)
qed

lemma nat_to_string_0: "nat_to_string 0 = ''0''"
  by code_simp

lemma html_corpus:
  "allData (fetchAllSources html_net [src_down])
     = [Obj [(''0'', Str ''<''), (''_source'', Str ''B''), (''_sourceUrl'', Str ''https://b.example/raw.json'')],
        Obj [(''0'', Str ''h''), (''_source'', Str ''B''), (''_sourceUrl'', Str ''https://b.example/raw.json'')],
        Obj [(''0'', Str ''t''), (''_source'', Str ''B''), (''_sourceUrl'', Str ''https://b.example/raw.json'')],
        Obj [(''0'', Str ''m''), (''_source'', Str ''B''), (''_sourceUrl'', Str ''https://b.example/raw.json'')],
        Obj [(''0'', Str ''l''), (''_source'', Str ''B''), (''_sourceUrl'', Str ''https://b.example/raw.json'')],
        Obj [(''0'', Str ''>''), (''_source'', Str ''B''), (''_sourceUrl'', Str ''https://b.example/raw.json'')]]"
  by (simp add: fetchAllSources_def try_source_def rawUrl_def opt_str_def js_or_def src_down_def
      html_net_def ok_def push_all_eq stamp_def nat_to_string_0 Let_def)

section \<open>Properties of the JSON-RPC engine\<close>

lemma str_includes_sublist: "str_includes s t \<longleftrightarrow> sublist t s"
  by (induction s) (simp_all add: sublist_Cons_right)

lemma tool_names_eq:
  "tool_names = [''list_sources'', ''get_raw_api_data'', ''search_classes'', ''get_class'',
                 ''search_functions'', ''get_function'']"
  by (simp add: tool_names_def tool_catalogue_def field_def lookup_def)

lemma get_prop_Inr_not_nullish: "get_prop v k = Inr x \<Longrightarrow> v \<noteq> Undefined \<and> v \<noteq> Null"
  by (cases v) auto

lemma strict_eq_Str [simp]: "strict_eq a (Str s) = (a = Str s)"
  by (cases a) auto

lemma strict_eq_Str_left [simp]: "strict_eq (Str s) b = (Str s = b)"
  by simp

lemma handleRequest_tools_call:
  assumes "get_prop message ''method'' = Inr (Str ''tools/call'')"
      and "get_prop message ''id'' = Inr i"
      and "get_prop message ''params'' = Inr params"
  shows "handleRequest w sources message =
           Inr (case tools_call w sources i params of Inl e \<Rightarrow> internal_error i e | Inr r \<Rightarrow> r)"
proof -
  from assms(1) have nn: "message \<noteq> Undefined" "message \<noteq> Null"
    using get_prop_Inr_not_nullish by blast+
  obtain j where j: "get_prop message ''jsonrpc'' = Inr j"
    using nn by (cases message) auto
  show ?thesis
    using nn j assms by (simp add: handleRequest_def handle_method_def)
qed

lemma tools_call_unknown:
  assumes "get_prop params ''name'' = Inr (Str tool)"
      and "tool \<notin> set tool_names"
  shows "tools_call w sources i params = Inr (error_envelope i (- 32601) (''Unknown tool: '' @ tool))"
proof -
  from assms(1) have nn: "params \<noteq> Undefined" "params \<noteq> Null"
    using get_prop_Inr_not_nullish by blast+
  obtain a where a: "get_prop params ''arguments'' = Inr a"
    using nn by (cases params) auto
  from assms(2) have ne: "tool \<noteq> ''list_sources''" "tool \<noteq> ''get_raw_api_data''"
    "tool \<noteq> ''search_classes''" "tool \<noteq> ''get_class''" "tool \<noteq> ''search_functions''"
    "tool \<noteq> ''get_function''"
    by (auto simp: tool_names_eq)
  show ?thesis
    using nn a assms(1) ne by (simp add: tools_call_def Let_def)
qed

lemma tools_call_same_corpus:
  assumes "allData (fetchAllSources (net_fetch w1) sources) = allData (fetchAllSources (net_fetch w2) sources)"
  shows "tools_call w1 sources i params = tools_call w2 sources i params"
  unfolding tools_call_def Let_def assms ..

lemma embedded_contribution:
  "embedded s \<Longrightarrow> contribution n1 s = contribution n2 s"
  by (simp add: contribution_def source_records_def)

lemma embedded_only_corpus:
  assumes "list_all embedded sources"
  shows "allData (fetchAllSources n1 sources) = allData (fetchAllSources n2 sources)"
proof -
  have "map (contribution n1) sources = map (contribution n2) sources"
    using assms by (auto simp: list_all_iff intro: embedded_contribution)
  then show ?thesis
    by (simp only: fetchAllSources_allData)
qed

lemma filterE_pure:
  assumes "\<And>x. x \<in> set xs \<Longrightarrow> p x = Inr (q x)"
  shows "filterE p xs = Inr (filter q xs)"
  using assms by (induction xs) auto

lemma mapE_pure:
  assumes "\<And>x. x \<in> set xs \<Longrightarrow> f x = Inr (g x)"
  shows "mapE f xs = Inr (map g xs)"
  using assms unfolding mapE_def by (induction xs) auto

lemma corpus_stamped:
  assumes "r \<in> set (allData (fetchAllSources netw sources))"
  shows "\<exists>kvs. \<exists>s \<in> set sources. r = Obj kvs \<and> map_of kvs ''_source'' = Some (Str (name s))"
proof -
  from assms obtain s cls where s: "s \<in> set sources" and r: "r = stamp (name s) (locator s) cls"
    by (auto simp: fetchAllSources_allData contribution_def)
  from stamp_fields [of "name s" "locator s" cls] r s show ?thesis
    by blast
qed

lemma filter_name_corpus:
  assumes "\<And>r. r \<in> set xs \<Longrightarrow> \<exists>kvs. r = Obj kvs"
      and "get_prop args k = Inr (Str cn)"
  shows "filter_name k args xs = Inr (filter (\<lambda>c. field c ''name'' = Str cn) xs)"
  unfolding filter_name_def
proof (rule filterE_pure)
  fix x assume "x \<in> set xs"
  then obtain kvs where "x = Obj kvs" using assms(1) by blast
  then show "bindE (get_prop x ''name'') (\<lambda>a. bindE (get_prop args k) (\<lambda>b. Inr (strict_eq a b)))
      = Inr (field x ''name'' = Str cn)"
    using assms(2) by (simp add: field_def)
qed

lemma filter_source_corpus:
  assumes "\<And>r. r \<in> set xs \<Longrightarrow> \<exists>kvs n. r = Obj kvs \<and> map_of kvs ''_source'' = Some (Str n)"
      and "get_prop args ''source'' = Inr src"
  shows "filter_source args xs = Inr (filter (\<lambda>c. field c ''_source'' = src) xs)"
  unfolding filter_source_def
proof (rule filterE_pure)
  fix x assume "x \<in> set xs"
  then obtain kvs n where "x = Obj kvs" "map_of kvs ''_source'' = Some (Str n)" using assms(1) by blast
  then show "bindE (get_prop x ''_source'') (\<lambda>a. bindE (get_prop args ''source'') (\<lambda>b. Inr (strict_eq a b)))
      = Inr (field x ''_source'' = src)"
    using assms(2) by (simp add: field_def lookup_def)
qed

lemma stringify2_Obj: "stringify2 (Obj kvs) = Str (text_of (stringify2 (Obj kvs)))"
  by (simp add: stringify2_def of_text_def)

lemma stringify2_Arr: "stringify2 (Arr xs) = Str (text_of (stringify2 (Arr xs)))"
  by (simp add: stringify2_def of_text_def)

lemma filter_filter_matches:
  "(if truthy src then filter (\<lambda>c. field c ''_source'' = src) (filter (\<lambda>c. field c ''name'' = Str cn) xs)
    else filter (\<lambda>c. field c ''name'' = Str cn) xs) = filter (class_matches cn src) xs"
  by (auto simp: class_matches_def intro: filter_cong)

lemma get_class_corpus:
  assumes corpus: "\<And>r. r \<in> set xs \<Longrightarrow> \<exists>kvs n. r = Obj kvs \<and> map_of kvs ''_source'' = Some (Str n)"
      and nm: "get_prop args ''name'' = Inr (Str cn)"
      and src: "get_prop args ''source'' = Inr src"
      and found: "found = filter (class_matches cn src) xs"
  shows "get_class xs args = Inr (text_content (Str (get_class_text cn found)))"
proof -
  let ?byName = "filter (\<lambda>c. field c ''name'' = Str cn) xs"
  have objs: "\<And>r. r \<in> set xs \<Longrightarrow> \<exists>kvs. r = Obj kvs"
    using corpus by blast
  have 1: "filter_name ''name'' args xs = Inr ?byName"
    using objs nm by (rule filter_name_corpus)
  have 2: "filter_source args ?byName = Inr (filter (\<lambda>c. field c ''_source'' = src) ?byName)"
    by (rule filter_source_corpus [OF _ src]) (use corpus in auto)
  have 3: "(if truthy src then filter_source args ?byName else Inr ?byName) = Inr found"
    unfolding found filter_filter_matches [symmetric] using 2 by simp
  have fobj: "\<And>c. c \<in> set found \<Longrightarrow> \<exists>kvs. c = Obj kvs"
    using objs found by auto
  have 4: "mapE (\<lambda>c. bindE (get_prop c ''name'') (\<lambda>cn.
                        bindE (get_prop c ''_source'') (\<lambda>cs.
                        bindE (get_prop c ''desc'') (\<lambda>cd.
                        Inr (Obj [(''name'', cn), (''source'', cs), (''desc'', cd)]))))) found
     = Inr (map summary_of found)"
  proof (rule mapE_pure)
    fix c assume "c \<in> set found"
    then obtain kvs where "c = Obj kvs" using fobj by blast
    then show "bindE (get_prop c ''name'') (\<lambda>cn.
                        bindE (get_prop c ''_source'') (\<lambda>cs.
                        bindE (get_prop c ''desc'') (\<lambda>cd.
                        Inr (Obj [(''name'', cn), (''source'', cs), (''desc'', cd)])))) = Inr (summary_of c)"
      by (simp add: summary_of_def field_def)
  qed
  have one: "length found = 1 \<Longrightarrow> stringify2 (found ! 0) = Str (text_of (stringify2 (found ! 0)))"
  proof -
    assume "length found = 1"
    then have "found ! 0 \<in> set found" by simp
    then obtain kvs where "found ! 0 = Obj kvs" using fobj by blast
    then show ?thesis using stringify2_Obj by simp
  qed
  show ?thesis
    unfolding get_class_def get_class_text_def
    apply (simp only: 1 bindE_Inr src 3)
    apply (cases "found = []")
     apply (simp add: nm)
    apply (cases "length found = 1")
     apply (simp add: one [symmetric])
    apply (simp add: nm 4 disambiguation_header_def)
    apply (subst stringify2_Arr)
    apply simp
    done
qed

lemma sublist_trans: "sublist a b \<Longrightarrow> sublist b c \<Longrightarrow> sublist a c"
  by (rule sublist_order.order.trans)

lemma sublist_join: "p \<in> set parts \<Longrightarrow> sublist p (join sep parts)"
proof (induction sep parts rule: join.induct)
  case (1 sep)
  then show ?case by simp
next
  case (2 sep x)
  then show ?case by simp
next
  case (3 sep x y ys)
  show ?case
  proof (cases "p = x")
    case True
    then show ?thesis by simp
  next
    case False
    with 3 have "sublist p (join sep (y # ys))" by simp
    then have "sublist p ((x @ sep) @ join sep (y # ys))"
      by (meson sublist_append_leftI sublist_trans)
    then show ?thesis by simp
  qed
qed

lemma sublist_wrap: "p \<in> set parts \<Longrightarrow> sublist p (wrap l r gap ind parts)"
proof -
  assume p: "p \<in> set parts"
  then have ne: "parts \<noteq> []" by auto
  have "\<exists>u v sep. wrap l r gap ind parts = u @ join sep parts @ v"
  proof (cases "gap = []")
    case True
    then have "wrap l r gap ind parts = l @ join '','' parts @ r"
      using ne by (simp add: wrap_def)
    then show ?thesis by blast
  next
    case False
    then have "wrap l r gap ind parts = (l @ [CHR 0x0A] @ ind @ gap)
        @ join ('','' @ [CHR 0x0A] @ ind @ gap) parts @ ([CHR 0x0A] @ ind @ r)"
      using ne by (simp add: wrap_def)
    then show ?thesis by blast
  qed
  then obtain u v sep where w: "wrap l r gap ind parts = u @ join sep parts @ v"
    by blast
  show ?thesis
    unfolding w using sublist_join [OF p] sublist_appendI by (rule sublist_trans)
qed

lemma serialize_Arr_elem:
  assumes "x \<in> set xs" and "serialize gap (ind @ gap) x = Some t"
  shows "sublist t (text_of (of_text (serialize gap ind (Arr xs))))"
proof -
  have "t \<in> set (map (\<lambda>x. case serialize gap (ind @ gap) x of None \<Rightarrow> ''null'' | Some t \<Rightarrow> t) xs)"
    using assms by force
  then show ?thesis
    by (simp add: of_text_def sublist_wrap)
qed

lemma sublist_json_member: "sublist t (json_member gap k t)"
proof -
  have "json_member gap k t = (quote k @ '':'' @ (if gap = [] then [] else '' '')) @ t"
    by (simp add: json_member_def)
  then show ?thesis
    by (metis sublist_append_leftI)
qed

lemma serialize_summary:
  assumes "field c ''_source'' = Str n"
  shows "\<exists>t. serialize gap ind (summary_of c) = Some t \<and> sublist (quote n) t"
proof -
  let ?parts = "concat (map (\<lambda>(k, v). case serialize gap (ind @ gap) v of None \<Rightarrow> []
                                 | Some t \<Rightarrow> [json_member gap k t])
      [(''name'', field c ''name''), (''source'', field c ''_source''), (''desc'', field c ''desc'')])"
  have "json_member gap ''source'' (quote n) \<in> set ?parts"
    using assms by simp
  then have "sublist (json_member gap ''source'' (quote n)) (wrap ''{'' ''}'' gap ind ?parts)"
    by (rule sublist_wrap)
  then have "sublist (quote n) (wrap ''{'' ''}'' gap ind ?parts)"
    using sublist_json_member sublist_trans by blast
  then show ?thesis
    by (simp add: summary_of_def)
qed

lemma listing_names_source:
  assumes "c \<in> set found" and "field c ''_source'' = Str n"
  shows "sublist (quote n) (text_of (stringify2 (Arr (map summary_of found))))"
proof -
  obtain t where t: "serialize ''  '' ([] @ ''  '') (summary_of c) = Some t" "sublist (quote n) t"
    using serialize_summary [OF assms(2)] by blast
  have "summary_of c \<in> set (map summary_of found)"
    using assms(1) by simp
  from serialize_Arr_elem [OF this t(1)] t(2) show ?thesis
    unfolding stringify2_def using sublist_trans by blast
qed

lemma get_class_text_none: "get_class_text cn [] = ''Class '' @ sq @ cn @ sq @ '' not found''"
  by (simp add: get_class_text_def)

lemma get_class_text_one: "get_class_text cn [c] = text_of (stringify2 c)"
  by (simp add: get_class_text_def)

lemma get_class_text_many:
  "2 \<le> length found \<Longrightarrow> get_class_text cn found =
     disambiguation_header (length found) cn
       @ ([CHR 0x0A, CHR 0x0A] @ text_of (stringify2 (Arr (map summary_of found))))"
proof -
  assume a: "2 \<le> length found"
  then have "found \<noteq> []" "length found \<noteq> 1" by auto
  then show ?thesis
    by (simp only: get_class_text_def if_False)
qed

lemma get_class_text_names:
  assumes "2 \<le> length found" and "c \<in> set found" and "field c ''_source'' = Str n"
  shows "sublist (quote n) (get_class_text cn found)"
proof -
  have "sublist (quote n) (text_of (stringify2 (Arr (map summary_of found))))"
    using assms(2,3) by (rule listing_names_source)
  then have "sublist (quote n) ((disambiguation_header (length found) cn @ [CHR 0x0A, CHR 0x0A])
      @ text_of (stringify2 (Arr (map summary_of found))))"
    using sublist_append_leftI sublist_trans by blast
  then show ?thesis
    by (simp only: get_class_text_many [OF assms(1)] append_assoc)
qed

lemma get_class_text_header:
  assumes "2 \<le> length found"
  shows "prefix (disambiguation_header (length found) cn) (get_class_text cn found)"
  by (simp only: get_class_text_many [OF assms] prefixI)

lemma example_corpus:
  "allData (fetchAllSources example_net [src_site, src_down, src_snapshot])
     = [Obj [(''name'', Str ''Foo''),
             (''functions'', Arr [Obj [(''name'', Str ''render''), (''function_type'', Str ''static'')],
                                  Obj [(''name'', Str ''update'')]]),
             (''_source'', Str ''A''), (''_sourceUrl'', Str ''https://a.example/docs/'')],
        Obj [(''name'', Str ''Bar''), (''tags'', Arr [Str ''ui'']),
             (''_source'', Str ''A''), (''_sourceUrl'', Str ''https://a.example/docs/'')],
        Obj [(''name'', Str ''Foo''), (''desc'', Str ''snapshot''),
             (''functions'', Arr [Obj [(''name'', Str ''render''), (''function_type'', Str ''method'')]]),
             (''_source'', Str ''C''), (''_sourceUrl'', Str ''owner/c'')]]"
  by (simp add: fetchAllSources_allData contribution_def stamp_def locator_def source_records_def
      remote_url_def embedded_def rawUrl_def endsWith_def
      opt_str_def js_or_def src_site_def src_down_def src_snapshot_def example_net_def ok_def)

lemma tools_call_tool:
  assumes "get_prop params ''name'' = Inr (Str tool)"
      and "get_prop params ''arguments'' = Inr args"
      and "tool \<noteq> ''list_sources''"
  shows "tools_call w sources i params =
     (let rawData = allData (fetchAllSources (net_fetch w) sources) in
      if tool = ''get_raw_api_data'' then
        bindE (get_raw_api_data rawData args) (\<lambda>content. Inr (result_envelope i content))
      else if tool = ''search_classes'' then
        bindE (search_classes rawData args) (\<lambda>content. Inr (result_envelope i content))
      else if tool = ''get_class'' then
        bindE (get_class rawData args) (\<lambda>content. Inr (result_envelope i content))
      else if tool = ''search_functions'' then
        bindE (search_functions rawData args) (\<lambda>content. Inr (result_envelope i content))
      else if tool = ''get_function'' then
        bindE (get_function rawData args) (\<lambda>content. Inr (result_envelope i content))
      else Inr (error_envelope i (- 32601) (''Unknown tool: '' @ tool)))"
proof -
  from assms(1) have nn: "params \<noteq> Undefined" "params \<noteq> Null"
    using get_prop_Inr_not_nullish by blast+
  show ?thesis
    using nn assms by (simp add: tools_call_def Let_def)
qed

lemma get_prop_field: "\<not> nullish v \<Longrightarrow> get_prop v k = Inr (field v k)"
  by (cases v) (simp_all add: field_def)

lemma field_Str_is_Obj: "field f k = Str s \<Longrightarrow> \<exists>kvs. f = Obj kvs"
  by (cases f) (simp_all add: field_def)

lemma findE_pure:
  assumes "\<And>x. x \<in> set xs \<Longrightarrow> p x = Inr (q x)"
  shows "findE p xs = Inr (case find q xs of None \<Rightarrow> Undefined | Some x \<Rightarrow> x)"
  using assms by (induction xs) auto

lemma find_Some_holds: "find q xs = Some x \<Longrightarrow> q x"
  by (induction xs) (auto split: if_splits)

lemma found_in_corpus:
  assumes c: "c = Obj kvs"
      and wf: "wf_functions c"
      and fn: "get_prop args ''functionName'' = Inr (Str fn)"
  shows "found_in args c = Inr (function_match fn c)"
proof -
  let ?p = "\<lambda>f. bindE (get_prop f ''name'') (\<lambda>a.
              bindE (get_prop args ''functionName'') (\<lambda>b. Inr (strict_eq a b)))"
  have gp: "get_prop c k = Inr (field c k)" for k
    using c by (simp add: field_def)
  show ?thesis
  proof (cases "field c ''functions''")
    case Undefined
    then show ?thesis by (simp add: found_in_def gp function_match_def)
  next
    case Null
    then show ?thesis by (simp add: found_in_def gp function_match_def)
  next
    case (Bool b)
    then show ?thesis using wf by (simp add: wf_functions_def)
  next
    case (Num n)
    then show ?thesis using wf by (simp add: wf_functions_def)
  next
    case (Str s)
    then show ?thesis using wf by (simp add: wf_functions_def)
  next
    case (Obj x)
    then show ?thesis using wf by (simp add: wf_functions_def)
  next
    case (Arr fs)
    then have nn: "\<And>f. f \<in> set fs \<Longrightarrow> \<not> nullish f"
      using wf by (simp add: wf_functions_def list_all_iff)
    have "findE ?p fs = Inr (case find (\<lambda>f. field f ''name'' = Str fn) fs of None \<Rightarrow> Undefined | Some x \<Rightarrow> x)"
    proof (rule findE_pure)
      fix f assume "f \<in> set fs"
      then show "?p f = Inr (field f ''name'' = Str fn)"
        using nn fn by (simp add: get_prop_field)
    qed
    then have fe: "call_find_opt (field c ''functions'') ?p
        = Inr (case find (\<lambda>f. field f ''name'' = Str fn) fs of None \<Rightarrow> Undefined | Some x \<Rightarrow> x)"
      using Arr by simp
    show ?thesis
    proof (cases "find (\<lambda>f. field f ''name'' = Str fn) fs")
      case None
      then show ?thesis
        using Arr fe by (simp add: found_in_def gp function_match_def)
    next
      case (Some f)
      then have "field f ''name'' = Str fn" by (rule find_Some_holds)
      then obtain fk where "f = Obj fk" using field_Str_is_Obj by blast
      then have "truthy f" by simp
      then show ?thesis
        using Arr fe Some by (simp add: found_in_def gp function_match_def annotate_def)
    qed
  qed
qed

lemma get_function_corpus:
  assumes corpus: "\<And>r. r \<in> set xs \<Longrightarrow> \<exists>kvs n. r = Obj kvs \<and> map_of kvs ''_source'' = Some (Str n)"
      and cn: "get_prop args ''className'' = Inr (Str cn)"
      and fn: "get_prop args ''functionName'' = Inr (Str fn)"
      and src: "get_prop args ''source'' = Inr src"
      and targets: "targets = filter (class_matches cn src) xs"
      and wf: "list_all wf_functions targets"
  shows "get_function xs args = Inr (text_content (Str (get_function_text cn fn targets)))"
proof -
  let ?byName = "filter (\<lambda>c. field c ''name'' = Str cn) xs"
  let ?found = "concat (map (function_match fn) targets)"
  have objs: "\<And>r. r \<in> set xs \<Longrightarrow> \<exists>kvs. r = Obj kvs"
    using corpus by blast
  have 1: "filter_name ''className'' args xs = Inr ?byName"
    using objs cn by (rule filter_name_corpus)
  have 2: "filter_source args ?byName = Inr (filter (\<lambda>c. field c ''_source'' = src) ?byName)"
    by (rule filter_source_corpus [OF _ src]) (use corpus in auto)
  have 3: "(if truthy src then filter_source args ?byName else Inr ?byName) = Inr targets"
    unfolding targets filter_filter_matches [symmetric] using 2 by simp
  have 4: "mapE (found_in args) targets = Inr (map (function_match fn) targets)"
  proof (rule mapE_pure)
    fix c assume c: "c \<in> set targets"
    then obtain kvs where "c = Obj kvs" using objs targets by auto
    moreover have "wf_functions c" using wf c by (simp add: list_all_iff)
    ultimately show "found_in args c = Inr (function_match fn c)"
      using fn by (rule found_in_corpus)
  qed
  define found where "found = concat (map (function_match fn) targets)"
  have fobj: "\<exists>kvs. g = Obj kvs" if "g \<in> set found" for g
    using that unfolding found_def
    by (auto simp: function_match_def annotate_def split: jsval.splits option.splits)
  have impl: "get_function xs args =
     (if length targets = 0 then
        Inr (text_content (Str (''Class '' @ sq @ cn @ sq @ '' not found'')))
      else if length found = 0 then
        Inr (text_content (Str (''Function '' @ sq @ fn @ sq @ '' not found in class '' @ sq @ cn @ sq)))
      else if length found = 1 then Inr (text_content (stringify2 (found ! 0)))
      else Inr (text_content (stringify2 (Arr found))))"
    unfolding get_function_def found_def
    by (simp only: 1 bindE_Inr src 3 4 Let_def cn fn ToString.simps cong: if_cong)
  have spec: "get_function_text cn fn targets =
     (if targets = [] then ''Class '' @ sq @ cn @ sq @ '' not found''
      else if found = [] then ''Function '' @ sq @ fn @ sq @ '' not found in class '' @ sq @ cn @ sq
      else if length found = 1 then text_of (stringify2 (found ! 0))
      else text_of (stringify2 (Arr found)))"
    unfolding get_function_text_def found_def ..
  show ?thesis
  proof (cases "targets = []")
    case True
    then show ?thesis unfolding impl spec by simp
  next
    case False
    note t = this
    show ?thesis
    proof (cases "found = []")
      case True
      then show ?thesis unfolding impl spec using t by simp
    next
      case False
      note f = this
      show ?thesis
      proof (cases "length found = 1")
        case True
        then have "found ! 0 \<in> set found" by simp
        then obtain kvs where "found ! 0 = Obj kvs" using fobj by blast
        then have "stringify2 (found ! 0) = Str (text_of (stringify2 (found ! 0)))"
          using stringify2_Obj by simp
        then show ?thesis unfolding impl spec using t f True by simp
      next
        case False
        have "stringify2 (Arr found) = Str (text_of (stringify2 (Arr found)))"
          by (rule stringify2_Arr)
        then show ?thesis unfolding impl spec using t f False by simp
      qed
    qed
  qed
qed

lemma get_function_text_no_class:
  "get_function_text cn fn [] = ''Class '' @ sq @ cn @ sq @ '' not found''"
  by (simp add: get_function_text_def)

lemma get_function_text_no_function:
  assumes "targets \<noteq> []" and "concat (map (function_match fn) targets) = []"
  shows "get_function_text cn fn targets
           = ''Function '' @ sq @ fn @ sq @ '' not found in class '' @ sq @ cn @ sq"
  unfolding get_function_text_def using assms by simp

lemma get_function_text_one:
  assumes "concat (map (function_match fn) targets) = [g]"
  shows "get_function_text cn fn targets = text_of (stringify2 g)"
proof -
  have "targets \<noteq> []" using assms by auto
  then show ?thesis
    unfolding get_function_text_def assms by simp
qed

lemma get_function_text_many:
  assumes "2 \<le> length (concat (map (function_match fn) targets))"
  shows "get_function_text cn fn targets
           = text_of (stringify2 (Arr (concat (map (function_match fn) targets))))"
proof -
  define found where "found = concat (map (function_match fn) targets)"
  have l: "2 \<le> length found"
    using assms by (simp only: found_def)
  have t: "targets \<noteq> []"
  proof
    assume "targets = []"
    then have "found = []" by (simp add: found_def)
    with l show False by simp
  qed
  from l have "found \<noteq> []" "length found \<noteq> 1"
    by auto
  with t show ?thesis
    unfolding get_function_text_def found_def [symmetric] by (simp only: if_False)
qed

lemma field_set_prop_same: "field (Obj (set_prop k v kvs)) k = v"
  by (simp add: field_def lookup_def map_of_set_prop_same)

lemma field_set_prop_other: "k' \<noteq> k \<Longrightarrow> field (Obj (set_prop k v kvs)) k' = field (Obj kvs) k'"
  by (simp add: field_def lookup_def map_of_set_prop_other)

lemma annotate_fields:
  "field (annotate c f) ''_className'' = field c ''name''"
  "field (annotate c f) ''_source'' = field c ''_source''"
  by (simp_all add: annotate_def field_set_prop_same field_set_prop_other)

lemma function_match_annotated:
  assumes "g \<in> set (function_match fn c)"
  shows "\<exists>f. g = annotate c f \<and> field f ''name'' = Str fn"
proof (cases "field c ''functions''")
  case (Arr fs)
  show ?thesis
  proof (cases "find (\<lambda>f. field f ''name'' = Str fn) fs")
    case None
    with Arr assms show ?thesis by (simp add: function_match_def)
  next
    case (Some f)
    then have "field f ''name'' = Str fn" by (rule find_Some_holds)
    moreover have "g = annotate c f"
      using Arr Some assms by (simp add: function_match_def)
    ultimately show ?thesis by blast
  qed
qed (use assms in \<open>simp_all add: function_match_def\<close>)

section \<open>Properties of the transport\<close>

lemma someE_pure:
  assumes "\<And>x. x \<in> set xs \<Longrightarrow> p x = Inr (q x)"
  shows "someE p xs = Inr (list_ex q xs)"
  using assms by (induction xs) auto

lemma is_request_pure: "\<not> nullish m \<Longrightarrow> is_request m = Inr (true_request m)"
  by (simp add: is_request_def true_request_def get_prop_field)

lemma has_id_pure: "\<not> nullish m \<Longrightarrow> has_id m = Inr (field m ''id'' \<noteq> Undefined)"
  by (simp add: has_id_def get_prop_field)

lemma nullish_iff: "nullish m \<longleftrightarrow> m = Undefined \<or> m = Null"
  by (cases m) auto

lemma handleRequest_total:
  assumes "\<not> nullish m"
  shows "\<exists>r. handleRequest w sources m = Inr r"
  using assms by (simp add: handleRequest_def nullish_iff get_prop_field)

lemma handleRequest_no_method:
  assumes "\<not> nullish m" and "field m ''method'' = Undefined"
  shows "handleRequest w sources m = Inr (error_envelope (field m ''id'') (- 32601) ''Method not found'')"
  using assms by (simp add: handleRequest_def nullish_iff get_prop_field handle_method_def)

lemma hasRequests_pure:
  assumes "list_all (\<lambda>m. \<not> nullish m) msgs"
  shows "someE is_request msgs = Inr (list_ex true_request msgs)"
  by (rule someE_pure) (use assms in \<open>simp add: list_all_iff is_request_pure\<close>)

lemma filter_has_id_pure:
  assumes "list_all (\<lambda>m. \<not> nullish m) msgs"
  shows "filterE has_id msgs = Inr (filter (\<lambda>m. field m ''id'' \<noteq> Undefined) msgs)"
  by (rule filterE_pure) (use assms in \<open>simp add: list_all_iff has_id_pure\<close>)

lemma in_enumerate_from: "x \<in> set xs \<Longrightarrow> \<exists>k. (k, x) \<in> set (enumerate_from n xs)"
  by (induction xs arbitrary: n) auto

lemma snd_enumerate_from: "(k, x) \<in> set (enumerate_from n xs) \<Longrightarrow> x \<in> set xs"
  by (induction xs arbitrary: n) auto

lemma length_enumerate_from [simp]: "length (enumerate_from n xs) = length xs"
  by (induction xs arbitrary: n) auto

lemma dispatch_pure:
  assumes "list_all (\<lambda>m. \<not> nullish m) msgs"
  shows "dispatch ws sources msgs =
     Inr (map (\<lambda>(k, m). response_of (ws k) sources m)
            (enumerate_from 0 (filter (\<lambda>m. field m ''id'' \<noteq> Undefined) msgs)))"
proof -
  let ?reqs = "filter (\<lambda>m. field m ''id'' \<noteq> Undefined) msgs"
  have "mapE (\<lambda>(k, msg). handleRequest (ws k) sources msg) (enumerate_from 0 ?reqs)
      = Inr (map (\<lambda>(k, m). response_of (ws k) sources m) (enumerate_from 0 ?reqs))"
  proof (rule mapE_pure)
    fix x assume x: "x \<in> set (enumerate_from 0 ?reqs)"
    obtain k m where km: "x = (k, m)" by (cases x)
    with x have "m \<in> set ?reqs" using snd_enumerate_from by fastforce
    then have "\<not> nullish m" using assms by (simp add: list_all_iff)
    then obtain r where "handleRequest (ws k) sources m = Inr r"
      using handleRequest_total by blast
    then show "(case x of (k, msg) \<Rightarrow> handleRequest (ws k) sources msg)
        = Inr (case x of (k, m) \<Rightarrow> response_of (ws k) sources m)"
      using km by (simp add: response_of_def)
  qed
  then show ?thesis
    by (simp add: dispatch_def filter_has_id_pure [OF assms])
qed

lemma sse_frames_contains:
  assumes "list_all (\<lambda>m. \<not> nullish m) msgs"
      and "m \<in> set msgs"
      and "field m ''id'' \<noteq> Undefined"
      and "\<And>w. handleRequest w sources m = Inr e"
  shows "frame e \<in> set (sse_frames ws sources k msgs)"
  using assms(1,2)
proof (induction msgs arbitrary: k)
  case Nil
  then show ?case by simp
next
  case (Cons x xs)
  from Cons.prems(1) have nx: "\<not> nullish x" and nxs: "list_all (\<lambda>m. \<not> nullish m) xs"
    by simp_all
  obtain r where r: "handleRequest (ws k) sources x = Inr r"
    using handleRequest_total [OF nx] by blast
  show ?case
  proof (cases "x = m")
    case True
    then show ?thesis
      using assms(3) assms(4) [of "ws k"] nx by (simp add: has_id_pure)
  next
    case False
    with Cons.prems(2) have "m \<in> set xs" by simp
    then have "\<And>k. frame e \<in> set (sse_frames ws sources k xs)"
      using Cons.IH nxs by blast
    then show ?thesis
      using r nx by (cases "field x ''id'' = Undefined") (simp_all add: has_id_pure)
  qed
qed

lemma two_distinct_members:
  assumes "x \<in> set xs" and "y \<in> set xs" and "x \<noteq> y"
  shows "2 \<le> length xs"
proof -
  have "{x, y} \<subseteq> set xs" using assms by simp
  then have "card {x, y} \<le> card (set xs)" by (simp add: card_mono)
  moreover have "card {x, y} = 2" using assms(3) by simp
  moreover have "card (set xs) \<le> length xs" by (rule card_length)
  ultimately show ?thesis by linarith
qed

lemma handlePost_Json:
  assumes "json request = Json b"
      and "list_all (\<lambda>m. \<not> nullish m) (messages_of b)"
  shows "handlePost ws sources request =
     (if \<not> list_ex true_request (messages_of b) then
        Inr \<lparr>status = 202, headers = getCorsHeaders request, body = NoBody\<rparr>
      else if wants_stream request then Inr (handleSSE ws sources (messages_of b) request)
      else
        bindE (dispatch ws sources (messages_of b)) (\<lambda>responses.
        Inr \<lparr>status = 200,
             headers = (''Content-Type'', ''application/json'') # getCorsHeaders request,
             body = body_of (stringify (if length responses = 1 then responses ! 0
                                        else Arr responses))\<rparr>))"
  unfolding handlePost_def
  by (simp add: assms(1) Let_def messages_of_def [symmetric] hasRequests_pure [OF assms(2)]
      wants_stream_def)

lemma notifications_only_accepted:
  assumes "json request = Json b"
      and "list_all (\<lambda>m. \<not> nullish m) (messages_of b)"
      and "\<not> list_ex true_request (messages_of b)"
  shows "handlePost ws sources request
           = Inr \<lparr>status = 202, headers = getCorsHeaders request, body = NoBody\<rparr>"
  using handlePost_Json [OF assms(1) assms(2)] assms(3) by simp

lemma cors_allow_origin:
  "map_of (getCorsHeaders request) ''Access-Control-Allow-Origin''
     = Some (case origin request of None \<Rightarrow> ''*'' | Some v \<Rightarrow> if v = [] then ''*'' else v)"
  by (simp add: getCorsHeaders_def)

lemma handlePost_cors:
  assumes "handlePost ws sources request = Inr resp"
  shows "\<exists>front. headers resp = front @ getCorsHeaders request"
proof (cases "json request")
  case (NotJson m)
  with assms have "headers resp = [(''Content-Type'', ''application/json'')] @ getCorsHeaders request"
    by (auto simp: handlePost_def)
  then show ?thesis by blast
next
  case (Json b)
  let ?msgs = "if isArray b then elements b else [b]"
  from assms Json obtain hasRequests where h: "someE is_request ?msgs = Inr hasRequests"
    by (cases "someE is_request ?msgs") (simp_all add: handlePost_def Let_def)
  show ?thesis
  proof (cases hasRequests)
    case False
    with assms Json h have "headers resp = [] @ getCorsHeaders request"
      by (auto simp: handlePost_def Let_def)
    then show ?thesis by blast
  next
    case True
    note t = this
    show ?thesis
    proof (cases "str_includes (text_of (js_or (opt_str (accept request)) (Str []))) ''text/event-stream''")
      case True
      with assms Json h t have "headers resp = [(''Content-Type'', ''text/event-stream''),
          (''Cache-Control'', ''no-cache''), (''Connection'', ''keep-alive'')] @ getCorsHeaders request"
        by (auto simp: handlePost_def Let_def handleSSE_def)
      then show ?thesis by blast
    next
      case False
      with assms Json h t obtain responses where "dispatch ws sources ?msgs = Inr responses"
        by (cases "dispatch ws sources ?msgs") (simp_all add: handlePost_def Let_def)
      with assms Json h t False
      have "headers resp = [(''Content-Type'', ''application/json'')] @ getCorsHeaders request"
        by (auto simp: handlePost_def Let_def)
      then show ?thesis by blast
    qed
  qed
qed

lemma cors_on_other_responses:
  assumes "fetch ws sources request = Inr resp"
      and "status resp \<noteq> 404" and "status resp \<noteq> 405"
  shows "\<exists>front. headers resp = front @ getCorsHeaders request"
proof (cases "pathname request = ''/mcp'' \<or> pathname request = ''/mcp/''")
  case True
  note mcp = this
  show ?thesis
  proof (cases "http_method request = ''POST''")
    case True
    with assms(1) mcp have "handlePost ws sources request = Inr resp"
      by (simp add: fetch_def)
    then show ?thesis by (rule handlePost_cors)
  next
    case False
    note np = this
    show ?thesis
    proof (cases "http_method request = ''GET''")
      case True
      with assms mcp np have "headers resp = [(''Content-Type'', ''text/event-stream''),
          (''Cache-Control'', ''no-cache''), (''Connection'', ''keep-alive'')] @ getCorsHeaders request"
        by (auto simp: fetch_def handleGet_def split: if_splits)
      then show ?thesis by blast
    next
      case False
      with assms mcp np have "headers resp = [] @ getCorsHeaders request"
        by (auto simp: fetch_def split: if_splits)
      then show ?thesis by blast
    qed
  qed
next
  case False
  with assms have "headers resp = [(''Content-Type'', ''application/json'')] @ getCorsHeaders request"
    by (auto simp: fetch_def split: if_splits)
  then show ?thesis by blast
qed

section \<open>Claims about the aggregator\<close>

text \<open>
  C1, as the specification states it: a source whose fetch fails, a malformed payload
  included, contributes zero records and no corrupt record. It fails for a source whose server
  answers 200 with a JSON string: the payload is not a sequence of class records, yet the loop
  stamps each of its characters as a record, the console stays empty, and the corpus differs
  from that of the remaining sources.
\<close>

theorem malformed_payload_counterexample:
  "specified_fetch_failure html_net src_down
   \<and> allData (fetchAllSources html_net [src_down])
     = [Obj [(''0'', Str ''<''), (''_source'', Str ''B''), (''_sourceUrl'', Str ''https://b.example/raw.json'')],
        Obj [(''0'', Str ''h''), (''_source'', Str ''B''), (''_sourceUrl'', Str ''https://b.example/raw.json'')],
        Obj [(''0'', Str ''t''), (''_source'', Str ''B''), (''_sourceUrl'', Str ''https://b.example/raw.json'')],
        Obj [(''0'', Str ''m''), (''_source'', Str ''B''), (''_sourceUrl'', Str ''https://b.example/raw.json'')],
        Obj [(''0'', Str ''l''), (''_source'', Str ''B''), (''_sourceUrl'', Str ''https://b.example/raw.json'')],
        Obj [(''0'', Str ''>''), (''_source'', Str ''B''), (''_sourceUrl'', Str ''https://b.example/raw.json'')]]
   \<and> console (fetchAllSources html_net [src_down]) = []
   \<and> allData (fetchAllSources html_net [src_site, src_down, src_snapshot])
     \<noteq> allData (fetchAllSources html_net [src_site, src_snapshot])"
proof -
  have f: "specified_fetch_failure html_net src_down"
    by (simp add: specified_fetch_failure_def remote_url_def embedded_def rawUrl_def opt_str_def
        src_down_def html_net_def ok_def)
  have c: "console (fetchAllSources html_net [src_down]) = []"
    by (simp add: fetchAllSources_def try_source_def rawUrl_def opt_str_def js_or_def src_down_def
      html_net_def ok_def Let_def)
  have "length (allData (fetchAllSources html_net [src_site, src_down, src_snapshot]))
      = length (allData (fetchAllSources html_net [src_site, src_snapshot])) + 6"
    by (simp add: fetchAllSources_allData contribution_def source_records_def remote_url_def
        embedded_def rawUrl_def endsWith_def opt_str_def src_site_def src_down_def src_snapshot_def
        html_net_def example_net_def ok_def)
  then have n: "allData (fetchAllSources html_net [src_site, src_down, src_snapshot])
     \<noteq> allData (fetchAllSources html_net [src_site, src_snapshot])"
    by auto
  from f html_corpus c n show ?thesis
    by (intro conjI)
qed

text \<open>
  C1, amended. For every registry, if the fetch of one source fails in a way the code
  recognises (the fetch is rejected, the status is not a success status, the body is rejected
  by \<^verbatim>\<open>response.json()\<close>, or the body parses to a value that cannot be iterated),
  aggregation still returns, and its corpus is exactly the stamped records of the remaining
  sources in registry order: the failed source contributes no record, whole or partial. The
  failure is not raised to the caller: it only adds one line, which names the source, to the
  console.
\<close>

theorem failed_fetch_contributes_nothing:
  assumes "fetch_fails netw s"
  shows "allData (fetchAllSources netw (xs @ s # ys))
           = concat (map (\<lambda>r. map (stamp (name r) (locator r)) (source_records netw r)) (xs @ ys))
    \<and> allData (fetchAllSources netw (xs @ s # ys)) = allData (fetchAllSources netw (xs @ ys))
    \<and> allData (fetchAllSources netw [s]) = []
    \<and> (\<exists>line. console (fetchAllSources netw (xs @ s # ys))
                  = console (fetchAllSources netw xs) @ line # console (fetchAllSources netw ys)
              \<and> sublist (name s) line)"
proof -
  have none: "contribution netw s = []"
    using assms by (rule fails_no_contribution)
  obtain line where line: "diagnostics netw s = [line]" "sublist (name s) line"
    using fails_one_diagnostic [OF assms] by blast
  have a: "allData (fetchAllSources netw (xs @ s # ys))
           = concat (map (\<lambda>r. map (stamp (name r) (locator r)) (source_records netw r)) (xs @ ys))"
  proof -
    have "allData (fetchAllSources netw (xs @ s # ys)) = concat (map (contribution netw) (xs @ ys))"
      by (simp add: fetchAllSources_allData none)
    then show ?thesis
      by (simp only: contribution_def [abs_def])
  qed
  have b: "allData (fetchAllSources netw (xs @ s # ys)) = allData (fetchAllSources netw (xs @ ys))"
    by (simp add: fetchAllSources_allData none)
  have c: "allData (fetchAllSources netw [s]) = []"
    by (simp add: fetchAllSources_allData none)
  have d: "console (fetchAllSources netw (xs @ s # ys))
      = console (fetchAllSources netw xs) @ line # console (fetchAllSources netw ys)"
    by (simp add: fetchAllSources_console line(1))
  from a b c d line(2) show ?thesis
    by blast
qed

theorem failed_fetch_contributes_nothing_witness:
  "fetch_fails example_net src_down
   \<and> allData (fetchAllSources example_net ([src_site] @ src_down # [src_snapshot]))
     = [Obj [(''name'', Str ''Foo''),
             (''functions'', Arr [Obj [(''name'', Str ''render''), (''function_type'', Str ''static'')],
                                  Obj [(''name'', Str ''update'')]]),
             (''_source'', Str ''A''), (''_sourceUrl'', Str ''https://a.example/docs/'')],
        Obj [(''name'', Str ''Bar''), (''tags'', Arr [Str ''ui'']),
             (''_source'', Str ''A''), (''_sourceUrl'', Str ''https://a.example/docs/'')],
        Obj [(''name'', Str ''Foo''), (''desc'', Str ''snapshot''),
             (''functions'', Arr [Obj [(''name'', Str ''render''), (''function_type'', Str ''method'')]]),
             (''_source'', Str ''C''), (''_sourceUrl'', Str ''owner/c'')]]
   \<and> allData (fetchAllSources example_net [src_down]) = []"
proof -
  have f: "fetch_fails example_net src_down"
    by (simp add: fetch_fails_def remote_url_def embedded_def rawUrl_def opt_str_def
        src_down_def example_net_def ok_def)
  have r: "concat (map (\<lambda>r. map (stamp (name r) (locator r)) (source_records example_net r))
            ([src_site] @ [src_snapshot]))
     = [Obj [(''name'', Str ''Foo''),
             (''functions'', Arr [Obj [(''name'', Str ''render''), (''function_type'', Str ''static'')],
                                  Obj [(''name'', Str ''update'')]]),
             (''_source'', Str ''A''), (''_sourceUrl'', Str ''https://a.example/docs/'')],
        Obj [(''name'', Str ''Bar''), (''tags'', Arr [Str ''ui'']),
             (''_source'', Str ''A''), (''_sourceUrl'', Str ''https://a.example/docs/'')],
        Obj [(''name'', Str ''Foo''), (''desc'', Str ''snapshot''),
             (''functions'', Arr [Obj [(''name'', Str ''render''), (''function_type'', Str ''method'')]]),
             (''_source'', Str ''C''), (''_sourceUrl'', Str ''owner/c'')]]"
    by (simp add: stamp_def locator_def source_records_def remote_url_def embedded_def rawUrl_def
        endsWith_def opt_str_def js_or_def src_site_def src_snapshot_def example_net_def ok_def)
  from failed_fetch_contributes_nothing [OF f, of "[src_site]" "[src_snapshot]"]
  have "allData (fetchAllSources example_net ([src_site] @ src_down # [src_snapshot]))
           = concat (map (\<lambda>r. map (stamp (name r) (locator r)) (source_records example_net r))
               ([src_site] @ [src_snapshot]))"
    and "allData (fetchAllSources example_net [src_down]) = []"
    by blast+
  with f r show ?thesis
    by simp
qed

text \<open>
  C2. For every registry, every record of the aggregated corpus is the original record with the
  field \<^verbatim>\<open>_source\<close> set to the name of its source and the field \<^verbatim>\<open>_sourceUrl\<close> set to
  the locator of its source (for an embedded source without any locator the field holds
  \<^verbatim>\<open>undefined\<close>). The corpus lists the sources in registry order and the records of one
  source in their original order.
\<close>

theorem corpus_stamped_in_registry_order:
  "allData (fetchAllSources netw sources)
     = concat (map (\<lambda>s. map (stamp (name s) (locator s)) (source_records netw s)) sources)
   \<and> (\<forall>r \<in> set (allData (fetchAllSources netw sources)).
        \<exists>s \<in> set sources. \<exists>kvs. r = Obj kvs
           \<and> map_of kvs ''_source'' = Some (Str (name s))
           \<and> map_of kvs ''_sourceUrl'' = Some (locator s))"
proof -
  have order: "allData (fetchAllSources netw sources)
      = concat (map (\<lambda>s. map (stamp (name s) (locator s)) (source_records netw s)) sources)"
    by (simp add: fetchAllSources_allData contribution_def [abs_def])
  have "\<exists>s \<in> set sources. \<exists>kvs. r = Obj kvs
           \<and> map_of kvs ''_source'' = Some (Str (name s))
           \<and> map_of kvs ''_sourceUrl'' = Some (locator s)"
    if "r \<in> set (allData (fetchAllSources netw sources))" for r
  proof -
    from that obtain s cls where s: "s \<in> set sources" and r: "r = stamp (name s) (locator s) cls"
      unfolding order by auto
    from stamp_fields [of "name s" "locator s" cls] r s show ?thesis
      by blast
  qed
  with order show ?thesis
    by blast
qed

theorem corpus_stamped_in_registry_order_witness:
  "allData (fetchAllSources example_net [src_site, src_down, src_snapshot])
     = [Obj [(''name'', Str ''Foo''),
             (''functions'', Arr [Obj [(''name'', Str ''render''), (''function_type'', Str ''static'')],
                                  Obj [(''name'', Str ''update'')]]),
             (''_source'', Str ''A''), (''_sourceUrl'', Str ''https://a.example/docs/'')],
        Obj [(''name'', Str ''Bar''), (''tags'', Arr [Str ''ui'']),
             (''_source'', Str ''A''), (''_sourceUrl'', Str ''https://a.example/docs/'')],
        Obj [(''name'', Str ''Foo''), (''desc'', Str ''snapshot''),
             (''functions'', Arr [Obj [(''name'', Str ''render''), (''function_type'', Str ''method'')]]),
             (''_source'', Str ''C''), (''_sourceUrl'', Str ''owner/c'')]]"
proof -
  have "concat (map (\<lambda>s. map (stamp (name s) (locator s)) (source_records example_net s))
          [src_site, src_down, src_snapshot]) = 
        [Obj [(''name'', Str ''Foo''),
             (''functions'', Arr [Obj [(''name'', Str ''render''), (''function_type'', Str ''static'')],
                                  Obj [(''name'', Str ''update'')]]),
             (''_source'', Str ''A''), (''_sourceUrl'', Str ''https://a.example/docs/'')],
        Obj [(''name'', Str ''Bar''), (''tags'', Arr [Str ''ui'']),
             (''_source'', Str ''A''), (''_sourceUrl'', Str ''https://a.example/docs/'')],
        Obj [(''name'', Str ''Foo''), (''desc'', Str ''snapshot''),
             (''functions'', Arr [Obj [(''name'', Str ''render''), (''function_type'', Str ''method'')]]),
             (''_source'', Str ''C''), (''_sourceUrl'', Str ''owner/c'')]]"
    by (simp add: stamp_def locator_def source_records_def remote_url_def embedded_def rawUrl_def endsWith_def
        opt_str_def js_or_def src_site_def src_down_def src_snapshot_def example_net_def ok_def)
  with corpus_stamped_in_registry_order [of example_net "[src_site, src_down, src_snapshot]"]
  show ?thesis by simp
qed

text \<open>
  C8, as the specification states it: all remote fetches of one run are issued before any of
  their outcomes is awaited. It fails for a registry with two remote sources: the second fetch
  is issued after the first one has settled.
\<close>

theorem fetches_concurrent_counterexample:
  "net (fetchAllSources example_net [src_site, src_down])
     = [Issued ''https://a.example/docs/raw.json'', Settled ''https://a.example/docs/raw.json'',
        Issued ''https://b.example/raw.json'', Settled ''https://b.example/raw.json'']
   \<and> \<not> fan_out_then_join (net (fetchAllSources example_net [src_site, src_down]))"
  by (simp add: fetchAllSources_net remote_urls_def remote_url_def embedded_def rawUrl_def endsWith_def
      opt_str_def src_site_def src_down_def fan_out_then_join_def)

text \<open>
  C8, amended. Within one aggregation run the remote sources are fetched one after another in
  registry order, each fetch awaited before the next one is issued, and the aggregator returns
  after the last; the records of the corpus follow registry order.
\<close>

theorem fetches_sequential_in_registry_order:
  "net (fetchAllSources netw sources)
     = concat (map (\<lambda>u. [Issued u, Settled u]) (remote_urls sources))
   \<and> allData (fetchAllSources netw sources) = concat (map (contribution netw) sources)"
  by (simp add: fetchAllSources_net fetchAllSources_allData)

theorem fetches_sequential_in_registry_order_witness:
  "net (fetchAllSources example_net [src_site, src_down, src_snapshot])
     = [Issued ''https://a.example/docs/raw.json'', Settled ''https://a.example/docs/raw.json'',
        Issued ''https://b.example/raw.json'', Settled ''https://b.example/raw.json'']"
proof -
  have "remote_urls [src_site, src_down, src_snapshot]
      = [''https://a.example/docs/raw.json'', ''https://b.example/raw.json'']"
    by (simp add: remote_urls_def remote_url_def embedded_def rawUrl_def endsWith_def opt_str_def
        src_site_def src_down_def src_snapshot_def)
  with fetches_sequential_in_registry_order [of example_net "[src_site, src_down, src_snapshot]"]
  show ?thesis by simp
qed

section \<open>Claims about the query engine\<close>





text \<open>
  C9. A \<^verbatim>\<open>tools/call\<close> request is answered from the registry and the aggregated corpus
  alone: two evaluations of the same request against the same registry give the same response
  (hence the same serialised bytes) whenever their aggregations are identical, whatever else
  differs between the two runs; and when every source of the registry is an embedded snapshot
  the aggregations are identical, so any two calls, in particular of
  \<^verbatim>\<open>get_raw_api_data\<close>, give the same response.
\<close>

theorem tools_are_deterministic:
  assumes "get_prop message ''method'' = Inr (Str ''tools/call'')"
  shows "(allData (fetchAllSources (net_fetch w1) sources)
            = allData (fetchAllSources (net_fetch w2) sources)
          \<longrightarrow> handleRequest w1 sources message = handleRequest w2 sources message
            \<and> stringify (case handleRequest w1 sources message of Inr r \<Rightarrow> r | Inl e \<Rightarrow> Undefined)
              = stringify (case handleRequest w2 sources message of Inr r \<Rightarrow> r | Inl e \<Rightarrow> Undefined))
       \<and> (list_all embedded sources
          \<longrightarrow> handleRequest w1 sources message = handleRequest w2 sources message)"
proof -
  from assms have nn: "message \<noteq> Undefined" "message \<noteq> Null"
    using get_prop_Inr_not_nullish by blast+
  obtain i where i: "get_prop message ''id'' = Inr i"
    using nn by (cases message) auto
  obtain params where p: "get_prop message ''params'' = Inr params"
    using nn by (cases message) auto
  have same: "handleRequest w1 sources message = handleRequest w2 sources message"
    if "allData (fetchAllSources (net_fetch w1) sources) = allData (fetchAllSources (net_fetch w2) sources)"
    using tools_call_same_corpus [OF that, of i params]
    by (simp add: handleRequest_tools_call [OF assms i p])
  have emb: "allData (fetchAllSources (net_fetch w1) sources) = allData (fetchAllSources (net_fetch w2) sources)"
    if "list_all embedded sources"
    using that by (rule embedded_only_corpus)
  show ?thesis
    using same emb by auto
qed

theorem tools_are_deterministic_witness:
  "list_all embedded [src_snapshot]
   \<and> handleRequest example_world [src_snapshot] (tool_call (Num 1) ''get_raw_api_data'' (Obj []))
     = handleRequest offline_world [src_snapshot] (tool_call (Num 1) ''get_raw_api_data'' (Obj []))"
proof -
  have h: "get_prop (tool_call (Num 1) ''get_raw_api_data'' (Obj [])) ''method'' = Inr (Str ''tools/call'')"
    by (simp add: tool_call_def lookup_def)
  have e: "list_all embedded [src_snapshot]"
    by (simp add: embedded_def src_snapshot_def)
  from tools_are_deterministic [OF h, of example_world "[src_snapshot]" offline_world] e
  show ?thesis
    by blast
qed



section \<open>Claims about the transport\<close>



text \<open>
  C5 says that every body that parses as JSON and contains no request is answered with
  status 202 and an empty body. The code evaluates \<^verbatim>\<open>msg.method\<close> on every message
  outside any \<^verbatim>\<open>try\<close>: for the body \<^verbatim>\<open>null\<close>, and for a batch of a notification
  followed by \<^verbatim>\<open>null\<close>, the \<^verbatim>\<open>TypeError\<close> leaves the handler and no response is
  produced. (For bodies none of whose messages is \<^verbatim>\<open>null\<close> the claim holds, see
  \<open>notifications_only_accepted\<close>.)
\<close>

theorem null_message_escapes_handlePost:
  "fetch ws sources (post Null)
     = Inl (TypeError ''Cannot read properties of null (reading method)'')
   \<and> fetch ws sources (post (Arr [Obj [(''jsonrpc'', Str ''2.0''),
                                       (''method'', Str ''notifications/initialized'')], Null]))
     = Inl (TypeError ''Cannot read properties of null (reading method)'')"
  by (simp add: fetch_def post_def handlePost_def is_request_def lookup_def)

text \<open>
  C7 says that every response, the 404 and 405 responses included, carries the CORS headers.
  The three plain error responses of the code are built without any header: the 405 of the
  router for another method on \<^verbatim>\<open>/mcp\<close>, the 405 of \<^verbatim>\<open>handleGet\<close> for a client that does
  not accept an event stream, and the 404 for any other path.
\<close>

theorem plain_error_responses_lack_cors:
  "fetch ws sources \<lparr>http_method = ''DELETE'', pathname = ''/mcp'', origin = Some ''https://client.example'',
                      accept = a, sessionId = sid, json = j\<rparr>
     = Inr \<lparr>status = 405, headers = [], body = TextBody ''Method Not Allowed''\<rparr>
   \<and> fetch ws sources \<lparr>http_method = ''GET'', pathname = ''/mcp'', origin = Some ''https://client.example'',
                      accept = Some ''application/json'', sessionId = sid, json = j\<rparr>
     = Inr \<lparr>status = 405, headers = [], body = TextBody ''Method Not Allowed''\<rparr>
   \<and> fetch ws sources \<lparr>http_method = ''GET'', pathname = ''/missing'', origin = Some ''https://client.example'',
                      accept = a, sessionId = sid, json = j\<rparr>
     = Inr \<lparr>status = 404, headers = [], body = TextBody ''Not Found''\<rparr>"
  by (simp add: fetch_def handleGet_def opt_str_def js_or_def)

end
